theory Spec2Isabelle
  imports Complex_Main
begin

section \<open>The HSDP connector of dex: data model\<close>

text \<open>
  The connector (\<^verbatim>\<open>connector/hsdp/hsdp.go\<close>) logs users in through HSDP IAM, either by
  the OAuth2 authorization-code flow or by a SAML2 bearer-assertion exchange, and
  reconciles userinfo claims, the token introspection and a profile lookup into one
  \<^verbatim>\<open>connector.Identity\<close>.

  Go strings and byte slices are both sequences of bytes, so both are \<open>string\<close>
  (\<open>char list\<close>, a \<open>char\<close> being eight bits); \<^verbatim>\<open>[]byte(s)\<close> and \<^verbatim>\<open>string(b)\<close> are the identity.
  A Go result pair \<^verbatim>\<open>(v, err)\<close> is a pair \<open>(v, err)\<close> with \<open>err :: error option\<close>, \<open>None\<close> for
  \<^verbatim>\<open>nil\<close>: the connector's operations return a value next to every error and the model keeps it.
\<close>

type_synonym bytes = string

text \<open>
  A decoded JSON value, what \<^verbatim>\<open>encoding/json\<close> stores in an \<^verbatim>\<open>interface{}\<close>: \<^verbatim>\<open>nil\<close>, \<^verbatim>\<open>bool\<close>,
  \<^verbatim>\<open>float64\<close> (a decoded number is finite, hence a rational), \<^verbatim>\<open>string\<close>, \<^verbatim>\<open>[]interface{}\<close>,
  \<^verbatim>\<open>map[string]interface{}\<close>.
\<close>

datatype json =
    JNull
  | JBool bool
  | JNumber rat
  | JString string
  | JArray "json list"
  | JObject "(string \<times> json) list"

text \<open>The claims bag \<^verbatim>\<open>map[string]interface{}\<close>; a \<^verbatim>\<open>nil\<close> map reads like the empty one.\<close>

type_synonym claims = "string \<rightharpoonup> json"

text \<open>
  The type assertion \<^verbatim>\<open>v, ok := claims[key].(string)\<close>: the zero string and \<^verbatim>\<open>false\<close> when the key
  is absent or its value is not a string.
\<close>

definition assertString :: "json option \<Rightarrow> string \<times> bool" where
  "assertString v = (case v of Some (JString s) \<Rightarrow> (s, True) | _ \<Rightarrow> ('''', False))"

text \<open>
  Modelled from the spec: \<^verbatim>\<open>connector.Identity\<close> and \<^verbatim>\<open>connector.Scopes\<close>, declared in the
  \<^verbatim>\<open>connector\<close> package outside \<^verbatim>\<open>hsdp.go\<close>. The identity is the canonical identity of the
  specification (user identifier, username, email, email-verified flag, session
  blob) with the two further fields of the dex declaration, \<^verbatim>\<open>PreferredUsername\<close> and
  \<^verbatim>\<open>Groups\<close>, which the resolver leaves at their zero values; the scopes carry the
  offline-access flag \<^verbatim>\<open>LoginURL\<close> reads.
\<close>

record Identity =
  UserID :: string
  Username :: string
  PreferredUsername :: string
  Email :: string
  EmailVerified :: bool
  Groups :: "string list"
  ConnectorData :: bytes

record Scopes =
  sc_OfflineAccess :: bool
  sc_Groups :: bool

text \<open>The zero value of \<^verbatim>\<open>connector.Identity\<close> (\<^verbatim>\<open>var identity connector.Identity\<close>).\<close>

definition zeroIdentity :: Identity where
  "zeroIdentity = \<lparr>UserID = '''', Username = '''', PreferredUsername = '''', Email = '''',
     EmailVerified = False, Groups = [], ConnectorData = []\<rparr>"

text \<open>
  Modelled from the spec: \<^verbatim>\<open>iam.IntrospectResponse\<close> and \<^verbatim>\<open>iam.Profile\<close>, declared in
  go-dip-api outside the repository. The introspection result has the fields the
  specification lists (validity, subject, username, identity type), which are the
  ones the resolver reads. The profile is a structured record the resolver only
  stores; three fields stand for it and no property depends on them.
\<close>

record IntrospectResponse =
  ir_Active :: bool
  ir_Sub :: string
  ir_Username :: string
  ir_IdentityType :: string

record Profile =
  pr_ID :: string
  pr_LoginID :: string
  pr_EmailAddress :: string

definition zeroIntrospectResponse :: IntrospectResponse where
  "zeroIntrospectResponse = \<lparr>ir_Active = False, ir_Sub = '''', ir_Username = '''', ir_IdentityType = ''''\<rparr>"

definition zeroProfile :: Profile where
  "zeroProfile = \<lparr>pr_ID = '''', pr_LoginID = '''', pr_EmailAddress = ''''\<rparr>"

text \<open>\<^verbatim>\<open>ConnectorData\<close>, the session blob before serialization, and its zero value.\<close>

record ConnectorData =
  cd_RefreshToken :: bytes
  cd_AccessToken :: bytes
  cd_Assertion :: bytes
  cd_Groups :: "string list"
  cd_TrustedIDPOrg :: string
  cd_AudienceTrustMap :: "string \<rightharpoonup> string"
  cd_TenantMap :: "string \<rightharpoonup> string"
  cd_Introspect :: IntrospectResponse
  cd_User :: Profile

definition zeroConnectorData :: ConnectorData where
  "zeroConnectorData = \<lparr>cd_RefreshToken = [], cd_AccessToken = [], cd_Assertion = [],
     cd_Groups = [], cd_TrustedIDPOrg = '''', cd_AudienceTrustMap = Map.empty,
     cd_TenantMap = Map.empty, cd_Introspect = zeroIntrospectResponse, cd_User = zeroProfile\<rparr>"

text \<open>The invocation mode \<^verbatim>\<open>caller\<close>.\<close>

datatype caller = createCaller | refreshCaller | exchangeCaller

text \<open>
  \<^verbatim>\<open>oauth2.Token\<close> (the expiry in Unix seconds, \<open>None\<close> for the zero \<^verbatim>\<open>time.Time\<close>), the
  connector's \<^verbatim>\<open>tokenResponse\<close>, \<^verbatim>\<open>oauth2.Endpoint\<close> and \<^verbatim>\<open>oauth2.Config\<close>.
\<close>

record Token =
  tok_AccessToken :: string
  tok_TokenType :: string
  tok_RefreshToken :: string
  tok_Expiry :: "int option"

record tokenResponse =
  tr_Scope :: string
  tr_AccessToken :: string
  tr_RefreshToken :: string
  tr_ExpiresIn :: int
  tr_TokenType :: string
  tr_IDToken :: string

datatype AuthStyle = AuthStyleAutoDetect | AuthStyleInParams | AuthStyleInHeader

record Endpoint =
  ep_AuthURL :: string
  ep_TokenURL :: string
  ep_AuthStyle :: AuthStyle

record oauth2Config =
  oc_ClientID :: string
  oc_ClientSecret :: string
  oc_Endpoint :: Endpoint
  oc_RedirectURL :: string
  oc_Scopes :: "string list"

datatype AuthCodeOption = SetAuthURLParam string string

definition AccessTypeOffline :: AuthCodeOption where
  "AccessTypeOffline = SetAuthURLParam ''access_type'' ''offline''"

text \<open>
  \<^verbatim>\<open>HSDPConnector\<close>: its data fields. The handles it also holds (provider, client,
  verifier, logger, cancel) stand for the outside world, which is the \<open>world\<close> record below.
\<close>

record HSDPConnector =
  redirectURI :: string
  introspectURI :: string
  samlLoginURL :: string
  clientID :: string
  clientSecret :: string
  oauth2Config :: oauth2Config
  hostedDomains :: "string list"
  insecureSkipEmailVerified :: bool
  enableGroupClaim :: bool
  enableRoleClaim :: bool
  roleAsGroupClaim :: bool
  promptType :: string
  tenantMap :: "string \<rightharpoonup> string"

subsection \<open>URLs, query values and HTTP messages\<close>

text \<open>\<^verbatim>\<open>url.URL\<close> with the fields of the Go struct; \<^verbatim>\<open>User\<close> is a name and an optional password.\<close>

record URL =
  u_Scheme :: string
  u_Opaque :: string
  u_User :: "(string \<times> string option) option"
  u_Host :: string
  u_Path :: string
  u_RawPath :: string
  u_OmitHost :: bool
  u_ForceQuery :: bool
  u_RawQuery :: string
  u_Fragment :: string
  u_RawFragment :: string

text \<open>\<^verbatim>\<open>url.Values\<close> is \<^verbatim>\<open>map[string][]string\<close>, with \<^verbatim>\<open>Get\<close>, \<^verbatim>\<open>Set\<close> and \<^verbatim>\<open>Add\<close> as Go defines them.\<close>

type_synonym Values = "string \<rightharpoonup> string list"

definition Values_Get :: "Values \<Rightarrow> string \<Rightarrow> string" where
  "Values_Get v key = (case v key of None \<Rightarrow> '''' | Some [] \<Rightarrow> '''' | Some (x # _) \<Rightarrow> x)"

definition Values_Set :: "Values \<Rightarrow> string \<Rightarrow> string \<Rightarrow> Values" where
  "Values_Set v key val = v(key \<mapsto> [val])"

definition Values_Add :: "Values \<Rightarrow> string \<Rightarrow> string \<Rightarrow> Values" where
  "Values_Add v key val = v(key \<mapsto> (case v key of None \<Rightarrow> [] | Some vs \<Rightarrow> vs) @ [val])"

text \<open>
  The outgoing \<^verbatim>\<open>http.Request\<close> of the SAML exchange, with what the connector sets on it
  (the basic-auth credentials are kept as a pair instead of their header encoding), the
  \<^verbatim>\<open>http.Response\<close> with the result of \<^verbatim>\<open>io.ReadAll\<close> on its body, and the incoming callback
  request with its URL and its context.
\<close>

record HTTPRequest =
  hr_Method :: string
  hr_URL :: URL
  hr_Body :: string
  hr_BasicAuth :: "(string \<times> string) option"
  hr_Header :: "(string \<times> string) list"
  hr_ContentLength :: int

record HTTPResponse =
  resp_Status :: string
  resp_StatusCode :: int
  resp_Body :: "string + bytes"

record 'ctx Request =
  rq_URL :: URL
  rq_Context :: 'ctx

text \<open>\<^verbatim>\<open>Header.Set\<close>: replace the values of the key by the one value.\<close>

definition Header_Set :: "(string \<times> string) list \<Rightarrow> string \<Rightarrow> string \<Rightarrow> (string \<times> string) list" where
  "Header_Set h key val = filter (\<lambda>kv. fst kv \<noteq> key) h @ [(key, val)]"

subsection \<open>Errors, outcomes and the calls made\<close>

text \<open>
  One constructor for each error the connector returns, carrying what its message is
  formatted from. \<open>ErrUpstream\<close> is an error of a collaborator returned as it is.
\<close>

datatype error =
    ErrCallbackMismatch string string
  | ErrInvalidSAMLLoginURL string
  | OAuth2Error string string
  | ErrUpstream string
  | ErrTokenStatus string bytes
  | ErrTokenResponse string
  | ErrGetToken string
  | ErrUnmarshalConnectorData string
  | ErrGetRefreshToken string
  | ErrLoadUserinfo string
  | ErrDecodeClaims string
  | ErrIntrospect string
  | ErrMissingEmailClaim
  | ErrUnexpectedHdClaim string
  | ErrEncodeConnectorData string

text \<open>\<^verbatim>\<open>(*oauth2Error).Error\<close>.\<close>

definition oauth2Error_Error :: "string \<Rightarrow> string \<Rightarrow> string" where
  "oauth2Error_Error err errorDescription =
     (if errorDescription = '''' then err else err @ '': '' @ errorDescription)"

text \<open>A call either returns or panics (a nil pointer dereference).\<close>

datatype 'a outcome = Panic | Return 'a

text \<open>
  The calls to collaborators, in the order made: the trace an operation returns next
  to its result.
\<close>

datatype event =
    EvDoRequest HTTPRequest
  | EvExchange string
  | EvTokenSource Token
  | EvUserInfo Token
  | EvIntrospect Token
  | EvGetUser string string
  | EvLogError string

subsection \<open>The outside world\<close>

text \<open>
  What the connector calls and does not define: the libraries \<^verbatim>\<open>net/url\<close>,
  \<^verbatim>\<open>encoding/json\<close>, \<^verbatim>\<open>oauth2\<close> and go-oidc, the IAM client, the clock, and the two helpers
  of the package that are defined outside \<^verbatim>\<open>hsdp.go\<close>, \<^verbatim>\<open>doRequest\<close> and
  \<^verbatim>\<open>(*HSDPConnector).introspect\<close>. Each is a parameter; a failing call is \<open>Inl\<close> of the
  collaborator's error text. On success \<^verbatim>\<open>introspect\<close> and \<^verbatim>\<open>UserInfo\<close> are taken to return
  a non-nil result. \<^verbatim>\<open>UserInfo\<close> yields the raw claims, which \<^verbatim>\<open>(*UserInfo).Claims\<close>
  decodes with \<open>w_DecodeClaims\<close>.
\<close>

record 'ctx world =
  w_Parse :: "string \<Rightarrow> string + URL"
  w_ParseQuery :: "string \<Rightarrow> Values"
  w_Encode :: "Values \<Rightarrow> string"
  w_String :: "URL \<Rightarrow> string"
  w_AuthCodeURL :: "oauth2Config \<Rightarrow> string \<Rightarrow> AuthCodeOption list \<Rightarrow> string"
  w_Exchange :: "'ctx \<Rightarrow> oauth2Config \<Rightarrow> string \<Rightarrow> string + Token"
  w_TokenSourceToken :: "'ctx \<Rightarrow> oauth2Config \<Rightarrow> Token \<Rightarrow> string + Token"
  w_doRequest :: "'ctx \<Rightarrow> HTTPRequest \<Rightarrow> string + HTTPResponse"
  w_DecodeTokenResponse :: "bytes \<Rightarrow> string + tokenResponse"
  w_UserInfo :: "'ctx \<Rightarrow> Token \<Rightarrow> string + bytes"
  w_DecodeClaims :: "bytes \<Rightarrow> string + claims"
  w_introspect :: "'ctx \<Rightarrow> Token \<Rightarrow> string + IntrospectResponse"
  w_LegacyGetUserByUUID :: "string \<Rightarrow> string \<Rightarrow> Profile option \<times> string option"
  w_Marshal :: "ConnectorData \<Rightarrow> string + bytes"
  w_Unmarshal :: "bytes \<Rightarrow> string + ConnectorData"
  w_Now :: int

text \<open>\<^verbatim>\<open>(*URL).Query\<close> parses \<^verbatim>\<open>RawQuery\<close> and drops the error.\<close>

definition URL_Query :: "'ctx world \<Rightarrow> URL \<Rightarrow> Values" where
  "URL_Query w u = w_ParseQuery w (u_RawQuery u)"

section \<open>The connector's operations\<close>

definition isSAML :: "HSDPConnector \<Rightarrow> bool" where
  "isSAML c = (length (samlLoginURL c) > 0)"

text \<open>
  The two search loops of \<^verbatim>\<open>createIdentity\<close>, each a \<^verbatim>\<open>for ... range\<close> that sets a flag and
  breaks at the first match.
\<close>

fun hasEmailScope :: "string list \<Rightarrow> bool" where
  "hasEmailScope [] = False"
| "hasEmailScope (s # ss) = (if s = ''email'' then True else hasEmailScope ss)"

fun domainFound :: "string \<Rightarrow> string list \<Rightarrow> bool" where
  "domainFound hostedDomain [] = False"
| "domainFound hostedDomain (domain # ds) =
     (if hostedDomain = domain then True else domainFound hostedDomain ds)"

text \<open>\<^verbatim>\<open>removeElement\<close>.\<close>

fun removeElement :: "'a list \<Rightarrow> 'a \<Rightarrow> 'a list" where
  "removeElement [] elementToRemove = []"
| "removeElement (item # slice) elementToRemove =
     (if item \<noteq> elementToRemove then item # removeElement slice elementToRemove
      else removeElement slice elementToRemove)"

text \<open>
  The scopes \<^verbatim>\<open>Open\<close> gives the connector's \<^verbatim>\<open>oauth2.Config\<close>, from the scopes of the
  configuration: \<^verbatim>\<open>openid\<close>, then the configured ones without \<^verbatim>\<open>federated:id\<close>, or the
  defaults when none is configured.
\<close>

definition openScopes :: "string list \<Rightarrow> string list" where
  "openScopes configured =
    (let scopes = [''openid'']
     in if length configured > 0
        then (let filtered = removeElement configured ''federated:id'' in scopes @ filtered)
        else scopes @ [''profile'', ''email'', ''groups''])"

text \<open>
  \<^verbatim>\<open>createIdentity\<close>, the identity resolver, in the order of its source. Three of its
  passages are definitions of their own.

  The connector data it starts from: the zero value, with the callback's \<^verbatim>\<open>assertion\<close>
  parameter saved when the caller is \<^verbatim>\<open>createCaller\<close>, the connector is in SAML mode and
  a request is at hand.
\<close>

definition initialConnectorData ::
  "'ctx world \<Rightarrow> HSDPConnector \<Rightarrow> 'ctx Request option \<Rightarrow> caller \<Rightarrow> ConnectorData" where
  "initialConnectorData w c r caller =
    (let cd = zeroConnectorData
     in case r of
          None \<Rightarrow> cd
        | Some req \<Rightarrow>
            if caller = createCaller \<and> isSAML c
            then (let q = URL_Query w (rq_URL req);
                      assertion = Values_Get q ''assertion''
                  in cd\<lparr>cd_Assertion := assertion\<rparr>)
            else cd)"

text \<open>
  The email and whether one was found: the userinfo \<^verbatim>\<open>email\<close> claim when it is a string,
  overridden by the introspection subject for a \<^verbatim>\<open>Service\<close> identity.
\<close>

definition resolveEmail :: "claims \<Rightarrow> IntrospectResponse \<Rightarrow> string \<times> bool" where
  "resolveEmail claims introspectResponse =
    (let (email, found) = assertString (claims ''email'')
     in if ir_IdentityType introspectResponse = ''Service''
        then (ir_Sub introspectResponse, True)
        else (email, found))"

text \<open>
  The end of the function, after the checks: complete the connector data, look the
  profile up (a failure is logged and otherwise ignored), assemble the identity and
  attach the serialized connector data. \<open>calls\<close> are the calls made so far.
\<close>

definition assembleIdentity ::
  "'ctx world \<Rightarrow> Token \<Rightarrow> ConnectorData \<Rightarrow> IntrospectResponse \<Rightarrow> string \<Rightarrow> bool \<Rightarrow> event list
     \<Rightarrow> (Identity \<times> error option) \<times> event list" where
  "assembleIdentity w token cd introspectResponse email emailVerified calls =
    (let cd = cd\<lparr>cd_RefreshToken := tok_RefreshToken token,
                 cd_AccessToken := tok_AccessToken token,
                 cd_Introspect := introspectResponse\<rparr>;
         lookup = w_LegacyGetUserByUUID w (tok_AccessToken token) (ir_Sub introspectResponse);
         calls = calls @ [EvGetUser (tok_AccessToken token) (ir_Sub introspectResponse)]
                   @ (case snd lookup of None \<Rightarrow> [] | Some e \<Rightarrow> [EvLogError e]);
         cd = (case fst lookup of None \<Rightarrow> cd | Some user \<Rightarrow> cd\<lparr>cd_User := user\<rparr>);
         identity = \<lparr>UserID = ir_Sub introspectResponse,
                     Username = ir_Username introspectResponse,
                     PreferredUsername = '''',
                     Email = email,
                     EmailVerified = emailVerified,
                     Groups = [],
                     ConnectorData = []\<rparr>
     in case w_Marshal w cd of
          Inl err \<Rightarrow> ((identity, Some (ErrEncodeConnectorData err)), calls)
        | Inr connData \<Rightarrow> ((identity\<lparr>ConnectorData := connData\<rparr>, None), calls))"

text \<open>
  Every error return of \<^verbatim>\<open>createIdentity\<close> before the assembly hands back the \<open>identity\<close> it
  was given; a failing serialization hands back the identity just assembled.
\<close>

definition createIdentity ::
  "'ctx world \<Rightarrow> HSDPConnector \<Rightarrow> 'ctx \<Rightarrow> Identity \<Rightarrow> Token \<Rightarrow> 'ctx Request option \<Rightarrow> caller
     \<Rightarrow> (Identity \<times> error option) \<times> event list" where
  "createIdentity w c ctx identity token r caller =
    (let cd = initialConnectorData w c r caller
     in case w_UserInfo w ctx token of
          Inl err \<Rightarrow> ((identity, Some (ErrLoadUserinfo err)), [EvUserInfo token])
        | Inr userInfo \<Rightarrow>
      (case w_DecodeClaims w userInfo of
          Inl err \<Rightarrow> ((identity, Some (ErrDecodeClaims err)), [EvUserInfo token])
        | Inr claims \<Rightarrow>
      (case w_introspect w ctx token of
          Inl err \<Rightarrow> ((identity, Some (ErrIntrospect err)), [EvUserInfo token, EvIntrospect token])
        | Inr introspectResponse \<Rightarrow>
      (let hasEmail = hasEmailScope (oc_Scopes (oauth2Config c));
           (email, found) = resolveEmail claims introspectResponse
       in if \<not> found \<and> hasEmail
          then ((identity, Some ErrMissingEmailClaim), [EvUserInfo token, EvIntrospect token])
          else
      (let emailVerified = True;
           emailVerified = (if isSAML c then True else emailVerified);
           hostedDomain = fst (assertString (claims ''hd''))
       in if length (hostedDomains c) > 0 \<and> \<not> domainFound hostedDomain (hostedDomains c)
          then ((identity, Some (ErrUnexpectedHdClaim hostedDomain)),
                [EvUserInfo token, EvIntrospect token])
          else assembleIdentity w token cd introspectResponse email emailVerified
                 [EvUserInfo token, EvIntrospect token])))))"

text \<open>
  \<^verbatim>\<open>LoginURL\<close>. In the SAML branch the error of parsing the callback URL is dropped and
  the nil URL is then dereferenced by \<^verbatim>\<open>cbu.Query()\<close>: a panic.
\<close>

definition LoginURL ::
  "'ctx world \<Rightarrow> HSDPConnector \<Rightarrow> Scopes \<Rightarrow> string \<Rightarrow> string \<Rightarrow> (string \<times> error option) outcome" where
  "LoginURL w c s callbackURL state =
    (if redirectURI c \<noteq> callbackURL
     then Return ('''', Some (ErrCallbackMismatch callbackURL (redirectURI c)))
     else if isSAML c then
       (case w_Parse w callbackURL of
          Inl _ \<Rightarrow> Panic
        | Inr cbu \<Rightarrow>
            (let values = URL_Query w cbu;
                 values = Values_Set values ''state'' state;
                 cbu = cbu\<lparr>u_RawQuery := w_Encode w values\<rparr>
             in case w_Parse w (samlLoginURL c) of
                  Inl err \<Rightarrow> Return ('''', Some (ErrInvalidSAMLLoginURL err))
                | Inr u \<Rightarrow>
                    (let values = URL_Query w u;
                         values = Values_Set values ''redirect_uri'' (w_String w cbu);
                         u = u\<lparr>u_RawQuery := w_Encode w values\<rparr>
                     in Return (w_String w u, None))))
     else
       (let opts = [];
            opts = (case hostedDomains c of
                      [] \<Rightarrow> opts
                    | preferredDomain # rest \<Rightarrow>
                        opts @ [SetAuthURLParam ''hd''
                                  (if length (hostedDomains c) > 1 then ''*'' else preferredDomain)]);
            opts = (if sc_OfflineAccess s
                    then opts @ [AccessTypeOffline, SetAuthURLParam ''prompt'' (promptType c)]
                    else opts)
        in Return (w_AuthCodeURL w (oauth2Config c) state opts, None)))"

text \<open>
  \<^verbatim>\<open>HandleCallback\<close>. \<^verbatim>\<open>http.NewRequest\<close> with a valid method fails only when the URL does
  not parse; its error is dropped and the nil request is then dereferenced by
  \<^verbatim>\<open>req.SetBasicAuth\<close>: a panic.
\<close>

definition samlTokenRequest :: "'ctx world \<Rightarrow> HSDPConnector \<Rightarrow> string \<Rightarrow> HTTPRequest outcome" where
  "samlTokenRequest w c assertion =
    (let form = Map.empty;
         form = Values_Add form ''grant_type'' ''urn:ietf:params:oauth:grant-type:saml2-bearer'';
         form = Values_Add form ''assertion'' assertion;
         requestBody = w_Encode w form
     in case w_Parse w (ep_TokenURL (oc_Endpoint (oauth2Config c))) of
          Inl _ \<Rightarrow> Panic
        | Inr u \<Rightarrow>
            (let req = \<lparr>hr_Method = ''POST'', hr_URL = u, hr_Body = requestBody,
                        hr_BasicAuth = None, hr_Header = [], hr_ContentLength = 0\<rparr>;
                 req = req\<lparr>hr_BasicAuth := Some (clientID c, clientSecret c)\<rparr>;
                 req = req\<lparr>hr_Header := Header_Set (hr_Header req) ''Accept'' ''application/json''\<rparr>;
                 req = req\<lparr>hr_Header := Header_Set (hr_Header req) ''Content-Type''
                                            ''application/x-www-form-urlencoded''\<rparr>;
                 req = req\<lparr>hr_Header := Header_Set (hr_Header req) ''Api-Version'' ''2''\<rparr>;
                 req = req\<lparr>hr_ContentLength := int (length requestBody)\<rparr>
             in Return req))"

definition HandleCallback ::
  "'ctx world \<Rightarrow> HSDPConnector \<Rightarrow> Scopes \<Rightarrow> 'ctx Request
     \<Rightarrow> (Identity \<times> error option) outcome \<times> event list" where
  "HandleCallback w c s r =
    (let identity = zeroIdentity;
         q = URL_Query w (rq_URL r);
         errType = Values_Get q ''error''
     in if errType \<noteq> ''''
        then (Return (identity, Some (OAuth2Error errType (Values_Get q ''error_description''))), [])
        else if isSAML c then
          (let assertion = Values_Get q ''assertion''
           in case samlTokenRequest w c assertion of
                Panic \<Rightarrow> (Panic, [])
              | Return req \<Rightarrow>
            (case w_doRequest w (rq_Context r) req of
                Inl err \<Rightarrow> (Return (identity, Some (ErrUpstream err)), [EvDoRequest req])
              | Inr resp \<Rightarrow>
            (case resp_Body resp of
                Inl err \<Rightarrow> (Return (identity, Some (ErrUpstream err)), [EvDoRequest req])
              | Inr body \<Rightarrow>
                if resp_StatusCode resp \<noteq> 200
                then (Return (identity, Some (ErrTokenStatus (resp_Status resp) body)),
                      [EvDoRequest req])
                else
            (case w_DecodeTokenResponse w body of
                Inl err \<Rightarrow> (Return (identity, Some (ErrTokenResponse err)), [EvDoRequest req])
              | Inr tr \<Rightarrow>
                (let token = \<lparr>tok_AccessToken = tr_AccessToken tr,
                              tok_TokenType = tr_TokenType tr,
                              tok_RefreshToken = tr_RefreshToken tr,
                              tok_Expiry = Some (tr_ExpiresIn tr)\<rparr>;
                     (res, calls) = createIdentity w c (rq_Context r) identity token (Some r) createCaller
                 in (Return res, EvDoRequest req # calls))))))
        else
          (let code = Values_Get q ''code''
           in case w_Exchange w (rq_Context r) (oauth2Config c) code of
                Inl err \<Rightarrow> (Return (identity, Some (ErrGetToken err)), [EvExchange code])
              | Inr token \<Rightarrow>
                  (let (res, calls) = createIdentity w c (rq_Context r) identity token (Some r) createCaller
                   in (Return res, EvExchange code # calls))))"

text \<open>\<^verbatim>\<open>Refresh\<close>: the token to redeem carries the stored refresh token and expired an hour ago.\<close>

definition Refresh ::
  "'ctx world \<Rightarrow> HSDPConnector \<Rightarrow> 'ctx \<Rightarrow> Scopes \<Rightarrow> Identity
     \<Rightarrow> (Identity \<times> error option) \<times> event list" where
  "Refresh w c ctx s identity =
    (case w_Unmarshal w (ConnectorData identity) of
       Inl err \<Rightarrow> ((identity, Some (ErrUnmarshalConnectorData err)), [])
     | Inr cd \<Rightarrow>
         (let t = \<lparr>tok_AccessToken = '''', tok_TokenType = '''',
                   tok_RefreshToken = cd_RefreshToken cd,
                   tok_Expiry = Some (w_Now w - 3600)\<rparr>
          in case w_TokenSourceToken w ctx (oauth2Config c) t of
               Inl err \<Rightarrow> ((identity, Some (ErrGetRefreshToken err)), [EvTokenSource t])
             | Inr token \<Rightarrow>
                 (let (res, calls) = createIdentity w c ctx identity token None refreshCaller
                  in (res, EvTokenSource t # calls))))"

text \<open>\<^verbatim>\<open>TokenIdentity\<close>: the subject token as a bearer access token.\<close>

definition subjectBearer :: "string \<Rightarrow> Token" where
  "subjectBearer subjectToken =
     \<lparr>tok_AccessToken = subjectToken, tok_TokenType = ''Bearer'',
      tok_RefreshToken = '''', tok_Expiry = None\<rparr>"

definition TokenIdentity ::
  "'ctx world \<Rightarrow> HSDPConnector \<Rightarrow> 'ctx \<Rightarrow> string \<Rightarrow> string
     \<Rightarrow> (Identity \<times> error option) \<times> event list" where
  "TokenIdentity w c ctx subjectTokenType subjectToken =
    (let identity = zeroIdentity;
         token = subjectBearer subjectToken
     in createIdentity w c ctx identity token None exchangeCaller)"

section \<open>A concrete world and concrete connectors\<close>

text \<open>
  The examples below run the operations against one concrete outside world. Its URL
  functions follow \<^verbatim>\<open>net/url\<close> on the inputs used here: absolute URLs of the shape
  \<^verbatim>\<open>scheme://host/path?query\<close> without user, port, fragment or escapes in the part before
  the query, and query strings whose keys and values need no unescaping.
\<close>

definition zeroURL :: URL where
  "zeroURL = \<lparr>u_Scheme = '''', u_Opaque = '''', u_User = None, u_Host = '''', u_Path = '''',
     u_RawPath = '''', u_OmitHost = False, u_ForceQuery = False, u_RawQuery = '''',
     u_Fragment = '''', u_RawFragment = ''''\<rparr>"

definition exParse :: "string \<Rightarrow> string + URL" where
  \<open>exParse s =
    (if take 1 s = '':'' then Inl (''parse "'' @ s @ ''": missing protocol scheme'')
     else
       (let front = takeWhile (\<lambda>ch. ch \<noteq> CHR ''?'') s;
            query = drop 1 (dropWhile (\<lambda>ch. ch \<noteq> CHR ''?'') s);
            scheme = takeWhile (\<lambda>ch. ch \<noteq> CHR '':'') front;
            after = dropWhile (\<lambda>ch. ch \<noteq> CHR '':'') front
        in if take 3 after = ''://''
           then Inr (zeroURL\<lparr>u_Scheme := scheme,
                              u_Host := takeWhile (\<lambda>ch. ch \<noteq> CHR ''/'') (drop 3 after),
                              u_Path := dropWhile (\<lambda>ch. ch \<noteq> CHR ''/'') (drop 3 after),
                              u_RawQuery := query\<rparr>)
           else Inr (zeroURL\<lparr>u_Path := front, u_RawQuery := query\<rparr>)))\<close>

definition exString :: "URL \<Rightarrow> string" where
  "exString u =
     (if u_Scheme u = '''' then '''' else u_Scheme u @ ''://'') @ u_Host u @ u_Path u
       @ (if u_RawQuery u = '''' then '''' else ''?'' @ u_RawQuery u)"

fun splitOn :: "char \<Rightarrow> string \<Rightarrow> string list" where
  "splitOn sep [] = [[]]"
| "splitOn sep (x # xs) =
     (if x = sep then [] # splitOn sep xs
      else (case splitOn sep xs of [] \<Rightarrow> [[x]] | y # ys \<Rightarrow> (x # y) # ys))"

definition exParseQuery :: "string \<Rightarrow> Values" where
  "exParseQuery s =
     foldl (\<lambda>m kv. if kv = '''' then m
                    else Values_Add m (takeWhile (\<lambda>ch. ch \<noteq> CHR ''='') kv)
                                      (drop 1 (dropWhile (\<lambda>ch. ch \<noteq> CHR ''='') kv)))
       Map.empty (splitOn (CHR ''&'') s)"

text \<open>\<^verbatim>\<open>url.QueryEscape\<close>: unreserved bytes stay, a space is \<^verbatim>\<open>+\<close>, any other byte is \<^verbatim>\<open>%XX\<close>.\<close>

definition hexDigit :: "nat \<Rightarrow> char" where
  "hexDigit n = ''0123456789ABCDEF'' ! (n mod 16)"

definition unreserved :: "char \<Rightarrow> bool" where
  "unreserved ch = (ch \<in> set ''abcdefghijklmnopqrstuvwxyzABCDEFGHIJKLMNOPQRSTUVWXYZ0123456789-_.~'')"

definition exQueryEscape :: "string \<Rightarrow> string" where
  "exQueryEscape s =
     concat (map (\<lambda>ch. if unreserved ch then [ch]
                        else if ch = CHR '' '' then ''+''
                        else [CHR ''%'', hexDigit (of_char ch div 16), hexDigit (of_char ch)]) s)"

text \<open>
  \<^verbatim>\<open>Values.Encode\<close> writes the keys in sorted order; this one does so over the keys the
  connector ever sets or reads, listed sorted.
\<close>

definition exKeys :: "string list" where
  "exKeys = [''assertion'', ''code'', ''error'', ''error_description'', ''grant_type'',
             ''redirect_uri'', ''state'']"

fun joinWith :: "string \<Rightarrow> string list \<Rightarrow> string" where
  "joinWith sep [] = ''''"
| "joinWith sep [x] = x"
| "joinWith sep (x # y # ys) = x @ sep @ joinWith sep (y # ys)"

definition exEncode :: "Values \<Rightarrow> string" where
  "exEncode v =
     joinWith ''&''
       (concat (map (\<lambda>k. map (\<lambda>val. exQueryEscape k @ ''='' @ exQueryEscape val)
                              (case v k of None \<Rightarrow> [] | Some vs \<Rightarrow> vs)) exKeys))"

text \<open>
  The upstream: which access tokens it knows, what userinfo and introspection answer
  for each, and the token endpoint's answer to the SAML exchange and to a code or a
  refresh token.
\<close>

definition exTokenBody :: bytes where
  \<open>exTokenBody = ''{"access_token":"a1","refresh_token":"r1","expires_in":0,"token_type":"Bearer"}''\<close>

definition exDecodeTokenResponse :: "bytes \<Rightarrow> string + tokenResponse" where
  "exDecodeTokenResponse body =
    (if body = exTokenBody
     then Inr \<lparr>tr_Scope = '''', tr_AccessToken = ''a1'', tr_RefreshToken = ''r1'',
               tr_ExpiresIn = 0, tr_TokenType = ''Bearer'', tr_IDToken = ''''\<rparr>
     else Inl ''invalid character'')"

definition exDoRequest :: "unit \<Rightarrow> HTTPRequest \<Rightarrow> string + HTTPResponse" where
  "exDoRequest ctx req =
    (if hr_BasicAuth req = Some (''dex'', ''secret'')
     then Inr \<lparr>resp_Status = ''200 OK'', resp_StatusCode = 200, resp_Body = Inr exTokenBody\<rparr>
     else Inr \<lparr>resp_Status = ''401 Unauthorized'', resp_StatusCode = 401, resp_Body = Inr ''''\<rparr>)"

definition exToken :: Token where
  "exToken = \<lparr>tok_AccessToken = ''a1'', tok_TokenType = ''Bearer'', tok_RefreshToken = ''r1'',
              tok_Expiry = Some 0\<rparr>"

definition exExchange :: "unit \<Rightarrow> oauth2Config \<Rightarrow> string \<Rightarrow> string + Token" where
  "exExchange ctx cfg code = (if code = ''c1'' then Inr exToken else Inl ''invalid_grant'')"

definition exTokenSourceToken :: "unit \<Rightarrow> oauth2Config \<Rightarrow> Token \<Rightarrow> string + Token" where
  "exTokenSourceToken ctx cfg t =
    (if tok_RefreshToken t = '''' then Inl ''oauth2: token expired and refresh token is not set''
     else if tok_RefreshToken t = ''r1'' then Inr exToken
     else Inl ''invalid_grant'')"

definition exClaimsAlice :: bytes where
  \<open>exClaimsAlice = ''{"sub":"someone-else","email":"alice@acme.com","hd":"acme.com"}''\<close>

definition exClaimsService :: bytes where
  \<open>exClaimsService = ''{"sub":"svc","email":"ops@acme.com","hd":"acme.com"}''\<close>

definition exClaimsNoEmail :: bytes where
  \<open>exClaimsNoEmail = ''{"sub":"bob","hd":"acme.com"}''\<close>

definition exClaimsNumberEmail :: bytes where
  \<open>exClaimsNumberEmail = ''{"sub":"carol","email":42,"hd":"acme.com"}''\<close>

definition exClaimsOther :: bytes where
  \<open>exClaimsOther = ''{"sub":"dave","email":"dave@other.com","hd":"other.com"}''\<close>

definition exClaimsNullEmail :: bytes where
  \<open>exClaimsNullEmail = ''{"sub":"frank","email":null,"hd":"acme.com"}''\<close>

definition exClaimsNoHd :: bytes where
  \<open>exClaimsNoHd = ''{"sub":"erin","email":"erin@acme.com"}''\<close>

text \<open>The body the userinfo endpoint answers with, for each access token it knows.\<close>

definition exUserInfoBody :: "Token \<Rightarrow> string + bytes" where
  "exUserInfoBody token =
    (if tok_AccessToken token = ''a1'' then Inr exClaimsAlice
     else if tok_AccessToken token = ''a-svc'' then Inr exClaimsService
     else if tok_AccessToken token = ''a-noemail'' then Inr exClaimsNoEmail
     else if tok_AccessToken token = ''a-number'' then Inr exClaimsNumberEmail
     else if tok_AccessToken token = ''a-null'' then Inr exClaimsNullEmail
     else if tok_AccessToken token = ''a-nohd'' then Inr exClaimsNoHd
     else if tok_AccessToken token = ''a-other'' then Inr exClaimsOther
     else Inl ''401 Unauthorized'')"

text \<open>The decoded claims of the userinfo bodies.\<close>

definition exAliceMap :: claims where
  "exAliceMap = [''sub'' \<mapsto> JString ''someone-else'', ''email'' \<mapsto> JString ''alice@acme.com'',
                 ''hd'' \<mapsto> JString ''acme.com'']"

definition exServiceMap :: claims where
  "exServiceMap = [''sub'' \<mapsto> JString ''svc'', ''email'' \<mapsto> JString ''ops@acme.com'',
                   ''hd'' \<mapsto> JString ''acme.com'']"

definition exNoEmailMap :: claims where
  "exNoEmailMap = [''sub'' \<mapsto> JString ''bob'', ''hd'' \<mapsto> JString ''acme.com'']"

definition exNumberEmailMap :: claims where
  "exNumberEmailMap = [''sub'' \<mapsto> JString ''carol'', ''email'' \<mapsto> JNumber 42,
                       ''hd'' \<mapsto> JString ''acme.com'']"

definition exOtherMap :: claims where
  "exOtherMap = [''sub'' \<mapsto> JString ''dave'', ''email'' \<mapsto> JString ''dave@other.com'',
                 ''hd'' \<mapsto> JString ''other.com'']"

definition exNullEmailMap :: claims where
  "exNullEmailMap = [''sub'' \<mapsto> JString ''frank'', ''email'' \<mapsto> JNull,
                     ''hd'' \<mapsto> JString ''acme.com'']"

definition exNoHdMap :: claims where
  "exNoHdMap = [''sub'' \<mapsto> JString ''erin'', ''email'' \<mapsto> JString ''erin@acme.com'']"

definition exDecodeClaims :: "bytes \<Rightarrow> string + claims" where
  "exDecodeClaims b =
    (if b = exClaimsAlice then Inr exAliceMap
     else if b = exClaimsService then Inr exServiceMap
     else if b = exClaimsNoEmail then Inr exNoEmailMap
     else if b = exClaimsNumberEmail then Inr exNumberEmailMap
     else if b = exClaimsNullEmail then Inr exNullEmailMap
     else if b = exClaimsNoHd then Inr exNoHdMap
     else if b = exClaimsOther then Inr exOtherMap
     else Inl ''invalid character'')"

text \<open>
  \<^verbatim>\<open>provider.UserInfo\<close> of go-oidc does more than fetch the body: it decodes it into a
  struct whose \<^verbatim>\<open>sub\<close>, \<^verbatim>\<open>profile\<close> and \<^verbatim>\<open>email\<close> fields are Go strings, and fails when that
  decoding fails. \<^verbatim>\<open>encoding/json\<close> stores a JSON string into a string field, leaves the
  field alone for \<^verbatim>\<open>null\<close> or a missing key, and rejects every other value. The concrete
  world's \<^verbatim>\<open>UserInfo\<close> applies this to the decoded body, whose keys are spelled as the
  fields' JSON names; none of the bodies carries \<^verbatim>\<open>email_verified\<close>, which is not examined.
\<close>

definition stringField :: "json option \<Rightarrow> bool" where
  "stringField v = (case v of None \<Rightarrow> True | Some JNull \<Rightarrow> True | Some (JString s) \<Rightarrow> True
                    | _ \<Rightarrow> False)"

definition jsonKind :: "json option \<Rightarrow> string" where
  "jsonKind v = (case v of Some (JBool b) \<Rightarrow> ''bool'' | Some (JNumber n) \<Rightarrow> ''number''
                 | Some (JArray xs) \<Rightarrow> ''array'' | Some (JObject kvs) \<Rightarrow> ''object''
                 | Some (JString s) \<Rightarrow> ''string'' | _ \<Rightarrow> ''null'')"

definition userInfoFieldError :: "claims \<Rightarrow> string \<Rightarrow> string" where
  "userInfoFieldError claims field =
     ''oidc: failed to decode userinfo: json: cannot unmarshal '' @ jsonKind (claims field)
       @ '' into Go struct field userInfoRaw.'' @ field @ '' of type string''"

definition oidcUserInfo :: "(bytes \<Rightarrow> string + claims) \<Rightarrow> bytes \<Rightarrow> string + bytes" where
  "oidcUserInfo decode body =
    (case decode body of
       Inl err \<Rightarrow> Inl (''oidc: failed to decode userinfo: '' @ err)
     | Inr claims \<Rightarrow>
         if \<not> stringField (claims ''sub'') then Inl (userInfoFieldError claims ''sub'')
         else if \<not> stringField (claims ''profile'') then Inl (userInfoFieldError claims ''profile'')
         else if \<not> stringField (claims ''email'') then Inl (userInfoFieldError claims ''email'')
         else Inr body)"

definition exUserInfo :: "unit \<Rightarrow> Token \<Rightarrow> string + bytes" where
  "exUserInfo ctx token =
    (case exUserInfoBody token of
       Inl err \<Rightarrow> Inl err
     | Inr body \<Rightarrow> oidcUserInfo exDecodeClaims body)"

definition exIntrospection :: "string \<Rightarrow> string \<Rightarrow> string \<Rightarrow> IntrospectResponse" where
  "exIntrospection sub username identityType =
     \<lparr>ir_Active = True, ir_Sub = sub, ir_Username = username, ir_IdentityType = identityType\<rparr>"

definition exIntrospect :: "unit \<Rightarrow> Token \<Rightarrow> string + IntrospectResponse" where
  "exIntrospect ctx token =
    (if tok_AccessToken token = ''a1'' then Inr (exIntrospection ''u-alice'' ''alice'' ''User'')
     else if tok_AccessToken token = ''a-svc'' then Inr (exIntrospection ''svc-1234'' ''svc'' ''Service'')
     else if tok_AccessToken token = ''a-noemail'' then Inr (exIntrospection ''u-bob'' ''bob'' ''User'')
     else if tok_AccessToken token = ''a-number'' then Inr (exIntrospection ''u-carol'' ''carol'' ''User'')
     else if tok_AccessToken token = ''a-null'' then Inr (exIntrospection ''u-frank'' ''frank'' ''User'')
     else if tok_AccessToken token = ''a-nohd'' then Inr (exIntrospection ''u-erin'' ''erin'' ''User'')
     else if tok_AccessToken token = ''a-other'' then Inr (exIntrospection ''u-dave'' ''dave'' ''User'')
     else Inl ''401 Unauthorized'')"

definition exLegacyGetUserByUUID :: "string \<Rightarrow> string \<Rightarrow> Profile option \<times> string option" where
  "exLegacyGetUserByUUID accessToken uuid =
    (if uuid = ''u-alice''
     then (Some \<lparr>pr_ID = ''u-alice'', pr_LoginID = ''alice'', pr_EmailAddress = ''alice@acme.com''\<rparr>, None)
     else (None, Some ''404 Not Found''))"

text \<open>
  The serialization of the connector data stands in for \<^verbatim>\<open>json.Marshal\<close>: it never fails
  and writes the three byte fields and the introspection subject, separated by line
  feeds. Its inverse fails on input that has no four such lines, as \<^verbatim>\<open>json.Unmarshal\<close> fails
  on input that is not JSON, the empty input among it.
\<close>

definition exMarshal :: "ConnectorData \<Rightarrow> string + bytes" where
  "exMarshal cd =
     Inr (cd_RefreshToken cd @ [CHR 0x0A] @ cd_AccessToken cd @ [CHR 0x0A] @ cd_Assertion cd
            @ [CHR 0x0A] @ ir_Sub (cd_Introspect cd))"

definition exUnmarshal :: "bytes \<Rightarrow> string + ConnectorData" where
  "exUnmarshal b =
    (case splitOn (CHR 0x0A) b of
       [refresh, access, assertion, sub] \<Rightarrow>
         Inr (zeroConnectorData\<lparr>cd_RefreshToken := refresh, cd_AccessToken := access,
                cd_Assertion := assertion,
                cd_Introspect := zeroIntrospectResponse\<lparr>ir_Sub := sub\<rparr>\<rparr>)
     | _ \<Rightarrow> Inl ''unexpected end of JSON input'')"

definition exAuthCodeURL :: "oauth2Config \<Rightarrow> string \<Rightarrow> AuthCodeOption list \<Rightarrow> string" where
  "exAuthCodeURL cfg state opts =
     ep_AuthURL (oc_Endpoint cfg) @ ''?client_id='' @ exQueryEscape (oc_ClientID cfg)
       @ ''&state='' @ exQueryEscape state"

definition exWorld :: "unit world" where
  "exWorld = \<lparr>w_Parse = exParse, w_ParseQuery = exParseQuery, w_Encode = exEncode,
     w_String = exString, w_AuthCodeURL = exAuthCodeURL, w_Exchange = exExchange,
     w_TokenSourceToken = exTokenSourceToken, w_doRequest = exDoRequest,
     w_DecodeTokenResponse = exDecodeTokenResponse, w_UserInfo = exUserInfo,
     w_DecodeClaims = exDecodeClaims, w_introspect = exIntrospect,
     w_LegacyGetUserByUUID = exLegacyGetUserByUUID, w_Marshal = exMarshal,
     w_Unmarshal = exUnmarshal, w_Now = 1700000000\<rparr>"

text \<open>
  A connector in OAuth2 mode with the hosted-domain list \<^verbatim>\<open>["acme.com"]\<close> and the scopes
  \<^verbatim>\<open>openid\<close> and \<^verbatim>\<open>email\<close>, and the same connector in SAML mode.
\<close>

definition exConnector :: HSDPConnector where
  "exConnector = \<lparr>redirectURI = ''https://dex.example.com/callback'',
     introspectURI = ''https://iam.example.com/introspect'',
     samlLoginURL = '''',
     clientID = ''dex'', clientSecret = ''secret'',
     oauth2Config = \<lparr>oc_ClientID = ''dex'', oc_ClientSecret = ''secret'',
       oc_Endpoint = \<lparr>ep_AuthURL = ''https://iam.example.com/authorize'',
                      ep_TokenURL = ''https://iam.example.com/token'',
                      ep_AuthStyle = AuthStyleAutoDetect\<rparr>,
       oc_RedirectURL = ''https://dex.example.com/callback'',
       oc_Scopes = [''openid'', ''email'']\<rparr>,
     hostedDomains = [''acme.com''],
     insecureSkipEmailVerified = False, enableGroupClaim = False, enableRoleClaim = False,
     roleAsGroupClaim = False, promptType = ''consent'', tenantMap = Map.empty\<rparr>"

definition exSAMLConnector :: HSDPConnector where
  "exSAMLConnector = exConnector\<lparr>samlLoginURL := ''https://idp.example.com/saml/login''\<rparr>"

text \<open>A connector in SAML mode whose login URL has no scheme: \<^verbatim>\<open>url.Parse\<close> rejects it.\<close>

definition exBadSAMLConnector :: HSDPConnector where
  "exBadSAMLConnector = exConnector\<lparr>samlLoginURL := '':saml''\<rparr>"

text \<open>
  Two connectors with other hosted-domain lists: one whose only entry is the empty
  string, one whose only entry is \<^verbatim>\<open>example.org\<close>.
\<close>

definition exEmptyDomainConnector :: HSDPConnector where
  "exEmptyDomainConnector = exConnector\<lparr>hostedDomains := ['''']\<rparr>"

definition exOrgDomainConnector :: HSDPConnector where
  "exOrgDomainConnector = exConnector\<lparr>hostedDomains := [''example.org'']\<rparr>"

text \<open>A connector in SAML mode whose redirect URI has no scheme either.\<close>

definition exBadRedirectConnector :: HSDPConnector where
  "exBadRedirectConnector = exSAMLConnector\<lparr>redirectURI := '':callback''\<rparr>"

definition exScopes :: Scopes where
  "exScopes = \<lparr>sc_OfflineAccess = False, sc_Groups = False\<rparr>"

text \<open>A callback request with the given raw query.\<close>

definition exCallback :: "string \<Rightarrow> unit Request" where
  "exCallback rawQuery =
     \<lparr>rq_URL = zeroURL\<lparr>u_Path := ''/callback'', u_RawQuery := rawQuery\<rparr>, rq_Context = ()\<rparr>"

text \<open>
  The identity of the user \<^verbatim>\<open>alice\<close> with a given session blob, and the session blobs
  of a login by code, by SAML assertion and by token exchange.
\<close>

definition exAliceIdentity :: "bytes \<Rightarrow> Identity" where
  "exAliceIdentity blob = \<lparr>UserID = ''u-alice'', Username = ''alice'', PreferredUsername = '''',
     Email = ''alice@acme.com'', EmailVerified = True, Groups = [], ConnectorData = blob\<rparr>"

definition exBlob :: "bytes \<Rightarrow> bytes \<Rightarrow> bytes \<Rightarrow> bytes \<Rightarrow> bytes" where
  "exBlob refresh access assertion sub =
     refresh @ [CHR 0x0A] @ access @ [CHR 0x0A] @ assertion @ [CHR 0x0A] @ sub"

section \<open>Properties\<close>

lemma hasEmailScope_iff: "hasEmailScope ss \<longleftrightarrow> ''email'' \<in> set ss"
  by (induction ss) auto

lemma domainFound_iff: "domainFound d ds \<longleftrightarrow> d \<in> set ds"
  by (induction ds) auto

lemma removeElement_filter: "removeElement slice x = filter (\<lambda>item. item \<noteq> x) slice"
  by (induction slice) auto

text \<open>
  The connector's scopes include \<^verbatim>\<open>email\<close> exactly when the configuration lists it or
  lists no scope at all.
\<close>

lemma openScopes_email:
  "''email'' \<in> set (openScopes configured) \<longleftrightarrow> ''email'' \<in> set configured \<or> configured = []"
  by (auto simp: openScopes_def removeElement_filter Let_def)

subsection \<open>What a run of the resolver tells\<close>

lemma assembleIdentity_success:
  assumes "assembleIdentity w token cd0 ir email ev calls0 = ((idn, None), evs)"
  shows "\<exists>cd. w_Marshal w cd = Inr (ConnectorData idn) \<and>
           cd_RefreshToken cd = tok_RefreshToken token \<and>
           cd_AccessToken cd = tok_AccessToken token \<and>
           cd_Introspect cd = ir \<and> cd_Assertion cd = cd_Assertion cd0 \<and>
           UserID idn = ir_Sub ir \<and> Username idn = ir_Username ir \<and>
           Email idn = email \<and> EmailVerified idn = ev \<and>
           set calls0 \<subseteq> set evs"
  using assms unfolding assembleIdentity_def Let_def
  by (auto split: sum.splits option.splits)

lemma assembleIdentity_error:
  assumes "assembleIdentity w token cd0 ir email ev calls0 = ((idn, Some e), evs)"
  shows "\<exists>m. e = ErrEncodeConnectorData m"
  using assms unfolding assembleIdentity_def Let_def
  by (auto split: sum.splits)

lemma createIdentity_success:
  assumes "createIdentity w c ctx identity token r caller = ((idn, None), evs)"
  shows "\<exists>ui claims ir cd.
           w_UserInfo w ctx token = Inr ui \<and> w_DecodeClaims w ui = Inr claims \<and>
           w_introspect w ctx token = Inr ir \<and>
           UserID idn = ir_Sub ir \<and> Username idn = ir_Username ir \<and> EmailVerified idn \<and>
           Email idn = fst (resolveEmail claims ir) \<and>
           (snd (resolveEmail claims ir) \<or> \<not> hasEmailScope (oc_Scopes (oauth2Config c))) \<and>
           (hostedDomains c = [] \<or> domainFound (fst (assertString (claims ''hd''))) (hostedDomains c)) \<and>
           EvIntrospect token \<in> set evs \<and>
           w_Marshal w cd = Inr (ConnectorData idn) \<and>
           cd_RefreshToken cd = tok_RefreshToken token \<and>
           cd_AccessToken cd = tok_AccessToken token \<and>
           cd_Introspect cd = ir \<and>
           cd_Assertion cd = cd_Assertion (initialConnectorData w c r caller)"
proof -
  from assms obtain ui where ui: "w_UserInfo w ctx token = Inr ui"
    unfolding createIdentity_def Let_def by (cases "w_UserInfo w ctx token") auto
  from assms ui obtain claims where cl: "w_DecodeClaims w ui = Inr claims"
    unfolding createIdentity_def Let_def by (cases "w_DecodeClaims w ui") auto
  from assms ui cl obtain ir where ir: "w_introspect w ctx token = Inr ir"
    unfolding createIdentity_def Let_def by (cases "w_introspect w ctx token") auto
  from assms ui cl ir have
    em: "snd (resolveEmail claims ir) \<or> \<not> hasEmailScope (oc_Scopes (oauth2Config c))"
    and hd: "hostedDomains c = [] \<or> domainFound (fst (assertString (claims ''hd''))) (hostedDomains c)"
    and asm: "assembleIdentity w token (initialConnectorData w c r caller) ir
                 (fst (resolveEmail claims ir)) True [EvUserInfo token, EvIntrospect token]
              = ((idn, None), evs)"
    unfolding createIdentity_def Let_def case_prod_beta by (auto split: if_splits)
  from assembleIdentity_success[OF asm] ui cl ir em hd show ?thesis by auto
qed

lemma createIdentity_error:
  assumes "createIdentity w c ctx identity token r caller = ((idn, Some e), evs)"
  shows "idn = identity \<or> (\<exists>m. e = ErrEncodeConnectorData m)"
  using assms unfolding createIdentity_def Let_def case_prod_beta
  by (auto split: sum.splits if_splits dest: assembleIdentity_error)

lemma HandleCallback_result:
  assumes "HandleCallback w c s r = (Return (idn, err), calls)"
  shows "(idn = zeroIdentity \<and> err \<noteq> None)
       \<or> (\<exists>token calls' first. Values_Get (URL_Query w (rq_URL r)) ''error'' = '''' \<and>
             createIdentity w c (rq_Context r) zeroIdentity token (Some r) createCaller = ((idn, err), calls')
             \<and> calls = first # calls'
             \<and> (if isSAML c
                 then \<exists>req resp body tr.
                        samlTokenRequest w c (Values_Get (URL_Query w (rq_URL r)) ''assertion'') = Return req \<and>
                        w_doRequest w (rq_Context r) req = Inr resp \<and> resp_Body resp = Inr body \<and>
                        resp_StatusCode resp = 200 \<and>
                        w_DecodeTokenResponse w body = Inr tr \<and>
                        tok_RefreshToken token = tr_RefreshToken tr \<and>
                        tok_AccessToken token = tr_AccessToken tr
                 else w_Exchange w (rq_Context r) (oauth2Config c)
                        (Values_Get (URL_Query w (rq_URL r)) ''code'') = Inr token))"
  using assms unfolding HandleCallback_def Let_def case_prod_beta
  by (auto split: if_splits outcome.splits sum.splits simp: prod_eq_iff)

lemma Refresh_result:
  assumes "Refresh w c ctx s identity = ((idn, err), calls)"
  shows "(idn = identity \<and> err \<noteq> None)
       \<or> (\<exists>token calls' first. createIdentity w c ctx identity token None refreshCaller = ((idn, err), calls')
             \<and> calls = first # calls')"
  using assms unfolding Refresh_def Let_def case_prod_beta
  by (auto split: sum.splits simp: prod_eq_iff)

lemma createIdentity_missing_email:
  assumes "w_UserInfo w ctx token = Inr ui" and "w_DecodeClaims w ui = Inr claims"
      and "w_introspect w ctx token = Inr ir"
      and "hasEmailScope (oc_Scopes (oauth2Config c))"
      and "\<not> snd (assertString (claims ''email''))"
      and "ir_IdentityType ir \<noteq> ''Service''"
  shows "createIdentity w c ctx identity token r caller
           = ((identity, Some ErrMissingEmailClaim), [EvUserInfo token, EvIntrospect token])"
  using assms unfolding createIdentity_def resolveEmail_def Let_def case_prod_beta
  by simp

lemma HandleCallback_error:
  assumes "HandleCallback w c s r = (Return (idn, Some e), calls)"
  shows "idn = zeroIdentity \<or> (\<exists>m. e = ErrEncodeConnectorData m)"
  using HandleCallback_result[OF assms] by (auto dest: createIdentity_error)

lemma Refresh_error:
  assumes "Refresh w c ctx s identity = ((idn, Some e), calls)"
  shows "idn = identity \<or> (\<exists>m. e = ErrEncodeConnectorData m)"
  using Refresh_result[OF assms] by (auto dest: createIdentity_error)

lemma LoginURL_error:
  assumes "LoginURL w c s callbackURL state = Return (url, Some e)"
  shows "url = ''''"
  using assms unfolding LoginURL_def Let_def
  by (auto split: if_splits sum.splits)

lemma initialConnectorData_assertion:
  "cd_Assertion (initialConnectorData w c r caller)
     = (case r of None \<Rightarrow> []
        | Some req \<Rightarrow> if caller = createCaller \<and> isSAML c
                       then Values_Get (URL_Query w (rq_URL req)) ''assertion'' else [])"
  by (auto simp add: initialConnectorData_def zeroConnectorData_def Let_def split: option.split)

lemma createIdentity_hd_error:
  assumes "createIdentity w c ctx identity token r caller = ((idn, Some (ErrUnexpectedHdClaim d)), evs)"
  shows "\<exists>ui claims. w_UserInfo w ctx token = Inr ui \<and> w_DecodeClaims w ui = Inr claims
           \<and> d = fst (assertString (claims ''hd'')) \<and> \<not> domainFound d (hostedDomains c)"
  using assms unfolding createIdentity_def Let_def case_prod_beta
  by (auto split: sum.splits if_splits dest: assembleIdentity_error)

subsection \<open>Runs in the concrete world\<close>

lemma exWorld_simps:
  "w_Parse exWorld = exParse" "w_ParseQuery exWorld = exParseQuery" "w_Encode exWorld = exEncode"
  "w_String exWorld = exString" "w_AuthCodeURL exWorld = exAuthCodeURL"
  "w_Exchange exWorld = exExchange" "w_TokenSourceToken exWorld = exTokenSourceToken"
  "w_doRequest exWorld = exDoRequest" "w_DecodeTokenResponse exWorld = exDecodeTokenResponse"
  "w_UserInfo exWorld = exUserInfo" "w_DecodeClaims exWorld = exDecodeClaims"
  "w_introspect exWorld = exIntrospect" "w_LegacyGetUserByUUID exWorld = exLegacyGetUserByUUID"
  "w_Marshal exWorld = exMarshal" "w_Unmarshal exWorld = exUnmarshal"
  by (simp_all add: exWorld_def)

lemma ex_userinfo:
  "exUserInfo () (subjectBearer ''a1'') = Inr exClaimsAlice"
  "exUserInfo () (subjectBearer ''a-svc'') = Inr exClaimsService"
  "exUserInfo () (subjectBearer ''a-noemail'') = Inr exClaimsNoEmail"
  "exUserInfo () (subjectBearer ''a-null'') = Inr exClaimsNullEmail"
  "exUserInfo () (subjectBearer ''a-nohd'') = Inr exClaimsNoHd"
  "exUserInfo () (subjectBearer ''a-other'') = Inr exClaimsOther"
  by code_simp+

lemma ex_claims:
  "exDecodeClaims exClaimsAlice = Inr exAliceMap"
  "exDecodeClaims exClaimsService = Inr exServiceMap"
  "exDecodeClaims exClaimsNoEmail = Inr exNoEmailMap"
  "exDecodeClaims exClaimsNumberEmail = Inr exNumberEmailMap"
  "exDecodeClaims exClaimsNullEmail = Inr exNullEmailMap"
  "exDecodeClaims exClaimsNoHd = Inr exNoHdMap"
  "exDecodeClaims exClaimsOther = Inr exOtherMap"
  by (simp_all add: exDecodeClaims_def exClaimsAlice_def exClaimsService_def exClaimsNoEmail_def
        exClaimsNumberEmail_def exClaimsNullEmail_def exClaimsNoHd_def exClaimsOther_def)

lemma ex_introspect:
  "exIntrospect () (subjectBearer ''a1'') = Inr (exIntrospection ''u-alice'' ''alice'' ''User'')"
  "exIntrospect () (subjectBearer ''a-svc'') = Inr (exIntrospection ''svc-1234'' ''svc'' ''Service'')"
  "exIntrospect () (subjectBearer ''a-noemail'') = Inr (exIntrospection ''u-bob'' ''bob'' ''User'')"
  "exIntrospect () (subjectBearer ''a-number'') = Inr (exIntrospection ''u-carol'' ''carol'' ''User'')"
  "exIntrospect () (subjectBearer ''a-null'') = Inr (exIntrospection ''u-frank'' ''frank'' ''User'')"
  "exIntrospect () (subjectBearer ''a-nohd'') = Inr (exIntrospection ''u-erin'' ''erin'' ''User'')"
  "exIntrospect () (subjectBearer ''a-other'') = Inr (exIntrospection ''u-dave'' ''dave'' ''User'')"
  by (simp_all add: exIntrospect_def subjectBearer_def)

lemma ex_login_code:
  "fst (HandleCallback exWorld exConnector exScopes (exCallback ''code=c1&state=st-1''))
     = Return (exAliceIdentity (exBlob ''r1'' ''a1'' '''' ''u-alice''), None)"
  by code_simp

lemma ex_login_saml:
  "fst (HandleCallback exWorld exSAMLConnector exScopes (exCallback ''assertion=XYZ&state=st-1''))
     = Return (exAliceIdentity (exBlob ''r1'' ''a1'' ''XYZ'' ''u-alice''), None)"
  by code_simp

lemma ex_exchange:
  "fst (TokenIdentity exWorld exConnector () ''urn:ietf:params:oauth:token-type:access_token'' ''a1'')
     = (exAliceIdentity (exBlob '''' ''a1'' '''' ''u-alice''), None)"
  by code_simp

lemma ex_refresh:
  "fst (Refresh exWorld exConnector () exScopes (exAliceIdentity (exBlob ''r1'' ''a1'' '''' ''u-alice'')))
     = (exAliceIdentity (exBlob ''r1'' ''a1'' '''' ''u-alice''), None)"
  by code_simp

lemma ex_service:
  "createIdentity exWorld exConnector () zeroIdentity (subjectBearer ''a-svc'') None exchangeCaller
     = ((\<lparr>UserID = ''svc-1234'', Username = ''svc'', PreferredUsername = '''',
           Email = ''svc-1234'', EmailVerified = True, Groups = [],
           ConnectorData = exBlob '''' ''a-svc'' '''' ''svc-1234''\<rparr>, None),
        [EvUserInfo (subjectBearer ''a-svc''), EvIntrospect (subjectBearer ''a-svc''),
         EvGetUser ''a-svc'' ''svc-1234'', EvLogError ''404 Not Found''])"
  by code_simp

lemma ex_denied:
  "Values_Get (URL_Query exWorld (rq_URL (exCallback ''error=access_denied&error_description=no'')))
     ''error'' = ''access_denied''"
  "Values_Get (URL_Query exWorld (rq_URL (exCallback ''error=access_denied&error_description=no'')))
     ''error_description'' = ''no''"
  by code_simp+

lemma ex_saml_facts:
  "isSAML exSAMLConnector"
  "Values_Get (URL_Query exWorld (rq_URL (exCallback ''assertion=XYZ&state=st-1''))) ''assertion'' = ''XYZ''"
  "w_DecodeTokenResponse exWorld exTokenBody
     = Inr \<lparr>tr_Scope = '''', tr_AccessToken = ''a1'', tr_RefreshToken = ''r1'',
            tr_ExpiresIn = 0, tr_TokenType = ''Bearer'', tr_IDToken = ''''\<rparr>"
  "exBlob ''r1'' ''a1'' ''XYZ'' ''u-alice'' = ''r1\<newline>a1\<newline>XYZ\<newline>u-alice''"
  by code_simp+

lemma ex_acme:
  "createIdentity exWorld exConnector () zeroIdentity (subjectBearer ''a1'') None exchangeCaller
     = ((exAliceIdentity (exBlob '''' ''a1'' '''' ''u-alice''), None),
        [EvUserInfo (subjectBearer ''a1''), EvIntrospect (subjectBearer ''a1''),
         EvGetUser ''a1'' ''u-alice''])"
  by code_simp

lemma ex_hd:
  "hostedDomains exConnector = [''acme.com'']"
  "fst (assertString (exAliceMap ''hd'')) = ''acme.com''"
  "fst (assertString (exOtherMap ''hd'')) = ''other.com''"
  "snd (assertString (exOtherMap ''email''))"
  by (simp_all add: exConnector_def exAliceMap_def exOtherMap_def assertString_def)

lemma ex_errors:
  "LoginURL exWorld exConnector exScopes ''https://evil.example.com/callback'' ''st-1''
     = Return ('''', Some (ErrCallbackMismatch ''https://evil.example.com/callback''
                            ''https://dex.example.com/callback''))"
  "HandleCallback exWorld exConnector exScopes (exCallback ''code=stale&state=st-1'')
     = (Return (zeroIdentity, Some (ErrGetToken ''invalid_grant'')), [EvExchange ''stale''])"
  "Refresh exWorld exConnector () exScopes (exAliceIdentity '''')
     = ((exAliceIdentity '''', Some (ErrUnmarshalConnectorData ''unexpected end of JSON input'')), [])"
  "TokenIdentity exWorld exConnector () ''urn:ietf:params:oauth:token-type:access_token'' ''a-noemail''
     = ((zeroIdentity, Some ErrMissingEmailClaim),
        [EvUserInfo (subjectBearer ''a-noemail''), EvIntrospect (subjectBearer ''a-noemail'')])"
  by code_simp+

lemma ex_saml_login:
  "isSAML exSAMLConnector"
  "redirectURI exSAMLConnector = ''https://dex.example.com/callback''"
  "w_Parse exWorld ''https://dex.example.com/callback''
     = Inr (zeroURL\<lparr>u_Scheme := ''https'', u_Host := ''dex.example.com'', u_Path := ''/callback''\<rparr>)"
  "w_Parse exWorld (samlLoginURL exSAMLConnector)
     = Inr (zeroURL\<lparr>u_Scheme := ''https'', u_Host := ''idp.example.com'', u_Path := ''/saml/login''\<rparr>)"
  "LoginURL exWorld exSAMLConnector exScopes ''https://dex.example.com/callback'' ''st-1''
     = Return (''https://idp.example.com/saml/login?redirect_uri=https%3A%2F%2Fdex.example.com%2Fcallback%3Fstate%3Dst-1'',
               None)"
  by code_simp+


lemma ex_no_hd:
  "createIdentity exWorld exEmptyDomainConnector () zeroIdentity (subjectBearer ''a-nohd'') None
     exchangeCaller
     = ((\<lparr>UserID = ''u-erin'', Username = ''erin'', PreferredUsername = '''',
           Email = ''erin@acme.com'', EmailVerified = True, Groups = [],
           ConnectorData = exBlob '''' ''a-nohd'' '''' ''u-erin''\<rparr>, None),
        [EvUserInfo (subjectBearer ''a-nohd''), EvIntrospect (subjectBearer ''a-nohd''),
         EvGetUser ''a-nohd'' ''u-erin'', EvLogError ''404 Not Found''])"
  by code_simp

lemma ex_org_domain:
  "createIdentity exWorld exOrgDomainConnector () zeroIdentity (subjectBearer ''a-noemail'') None
     exchangeCaller
     = ((zeroIdentity, Some ErrMissingEmailClaim),
        [EvUserInfo (subjectBearer ''a-noemail''), EvIntrospect (subjectBearer ''a-noemail'')])"
  by code_simp

section \<open>The properties of the specification\<close>

text \<open>
  C1. Whenever \<^verbatim>\<open>HandleCallback\<close>, \<^verbatim>\<open>Refresh\<close> or \<^verbatim>\<open>TokenIdentity\<close> returns without an error, the
  \<^verbatim>\<open>UserID\<close> of the identity returned is the \<^verbatim>\<open>Sub\<close> of the introspection response for the
  token the resolver introspected (the call is in the trace). Neither the userinfo
  claims nor anything the caller passed in enters it: in the concrete runs the claims
  say \<^verbatim>\<open>sub = someone-else\<close> and the identity says \<^verbatim>\<open>u-alice\<close>.
\<close>


theorem userid_is_introspection_subject:
  shows "(HandleCallback w c s r = (Return (identity1, None), calls1) \<longrightarrow>
           (\<exists>token ir. EvIntrospect token \<in> set calls1 \<and>
              w_introspect w (rq_Context r) token = Inr ir \<and> UserID identity1 = ir_Sub ir))
       \<and> (Refresh w c ctx s identity0 = ((identity2, None), calls2) \<longrightarrow>
           (\<exists>token ir. EvIntrospect token \<in> set calls2 \<and>
              w_introspect w ctx token = Inr ir \<and> UserID identity2 = ir_Sub ir))
       \<and> (TokenIdentity w c ctx subjectTokenType subjectToken = ((identity3, None), calls3) \<longrightarrow>
           (\<exists>ir. EvIntrospect (subjectBearer subjectToken) \<in> set calls3 \<and>
              w_introspect w ctx (subjectBearer subjectToken) = Inr ir \<and> UserID identity3 = ir_Sub ir))"
proof (intro conjI impI)
  assume h: "HandleCallback w c s r = (Return (identity1, None), calls1)"
  from HandleCallback_result[OF h] obtain token calls' first where
    ci: "createIdentity w c (rq_Context r) zeroIdentity token (Some r) createCaller
           = ((identity1, None), calls')" and cs: "calls1 = first # calls'"
    by auto
  from createIdentity_success[OF ci] cs
  show "\<exists>token ir. EvIntrospect token \<in> set calls1 \<and>
              w_introspect w (rq_Context r) token = Inr ir \<and> UserID identity1 = ir_Sub ir"
    by auto
next
  assume h: "Refresh w c ctx s identity0 = ((identity2, None), calls2)"
  from Refresh_result[OF h] obtain token calls' first where
    ci: "createIdentity w c ctx identity0 token None refreshCaller = ((identity2, None), calls')"
    and cs: "calls2 = first # calls'"
    by auto
  from createIdentity_success[OF ci] cs
  show "\<exists>token ir. EvIntrospect token \<in> set calls2 \<and>
              w_introspect w ctx token = Inr ir \<and> UserID identity2 = ir_Sub ir"
    by auto
next
  assume h: "TokenIdentity w c ctx subjectTokenType subjectToken = ((identity3, None), calls3)"
  then have ci: "createIdentity w c ctx zeroIdentity (subjectBearer subjectToken) None exchangeCaller
                  = ((identity3, None), calls3)"
    by (simp add: TokenIdentity_def)
  from createIdentity_success[OF ci]
  show "\<exists>ir. EvIntrospect (subjectBearer subjectToken) \<in> set calls3 \<and>
              w_introspect w ctx (subjectBearer subjectToken) = Inr ir \<and> UserID identity3 = ir_Sub ir"
    by auto
qed

theorem userid_is_introspection_subject_witness:
  "fst (HandleCallback exWorld exConnector exScopes (exCallback ''code=c1&state=st-1''))
     = Return (exAliceIdentity (exBlob ''r1'' ''a1'' '''' ''u-alice''), None)
   \<and> (\<exists>token ir. EvIntrospect token
                     \<in> set (snd (HandleCallback exWorld exConnector exScopes (exCallback ''code=c1&state=st-1'')))
         \<and> w_introspect exWorld (rq_Context (exCallback ''code=c1&state=st-1'')) token = Inr ir
         \<and> UserID (exAliceIdentity (exBlob ''r1'' ''a1'' '''' ''u-alice'')) = ir_Sub ir)
   \<and> fst (Refresh exWorld exConnector () exScopes (exAliceIdentity (exBlob ''r1'' ''a1'' '''' ''u-alice'')))
     = (exAliceIdentity (exBlob ''r1'' ''a1'' '''' ''u-alice''), None)
   \<and> (\<exists>token ir. EvIntrospect token
                     \<in> set (snd (Refresh exWorld exConnector () exScopes
                                   (exAliceIdentity (exBlob ''r1'' ''a1'' '''' ''u-alice''))))
         \<and> w_introspect exWorld () token = Inr ir
         \<and> UserID (exAliceIdentity (exBlob ''r1'' ''a1'' '''' ''u-alice'')) = ir_Sub ir)
   \<and> fst (TokenIdentity exWorld exConnector () ''urn:ietf:params:oauth:token-type:access_token'' ''a1'')
     = (exAliceIdentity (exBlob '''' ''a1'' '''' ''u-alice''), None)
   \<and> (\<exists>ir. EvIntrospect (subjectBearer ''a1'')
                \<in> set (snd (TokenIdentity exWorld exConnector ()
                               ''urn:ietf:params:oauth:token-type:access_token'' ''a1''))
         \<and> w_introspect exWorld () (subjectBearer ''a1'') = Inr ir
         \<and> UserID (exAliceIdentity (exBlob '''' ''a1'' '''' ''u-alice'')) = ir_Sub ir)
   \<and> UserID (exAliceIdentity (exBlob '''' ''a1'' '''' ''u-alice'')) = ''u-alice''
   \<and> exAliceMap ''sub'' = Some (JString ''someone-else'')"
proof -
  let ?r = "exCallback ''code=c1&state=st-1''"
  let ?i0 = "exAliceIdentity (exBlob ''r1'' ''a1'' '''' ''u-alice'')"
  let ?i3 = "exAliceIdentity (exBlob '''' ''a1'' '''' ''u-alice'')"
  let ?tt = "''urn:ietf:params:oauth:token-type:access_token''"
  let ?c1 = "snd (HandleCallback exWorld exConnector exScopes ?r)"
  let ?c2 = "snd (Refresh exWorld exConnector () exScopes ?i0)"
  let ?c3 = "snd (TokenIdentity exWorld exConnector () ?tt ''a1'')"
  have a: "HandleCallback exWorld exConnector exScopes ?r = (Return (?i0, None), ?c1)"
    using ex_login_code by (simp add: prod_eq_iff)
  have b: "Refresh exWorld exConnector () exScopes ?i0 = ((?i0, None), ?c2)"
    using ex_refresh by (simp add: prod_eq_iff)
  have c: "TokenIdentity exWorld exConnector () ?tt ''a1'' = ((?i3, None), ?c3)"
    using ex_exchange by (simp add: prod_eq_iff)
  note T = userid_is_introspection_subject
             [where w = exWorld and c = exConnector and s = exScopes and r = ?r
                and ?identity1.0 = ?i0 and ?calls1.0 = ?c1
                and ctx = "()" and ?identity0.0 = ?i0 and ?identity2.0 = ?i0 and ?calls2.0 = ?c2
                and subjectTokenType = ?tt and subjectToken = "''a1''"
                and ?identity3.0 = ?i3 and ?calls3.0 = ?c3]
  have 1: "\<exists>token ir. EvIntrospect token \<in> set ?c1
             \<and> w_introspect exWorld (rq_Context ?r) token = Inr ir \<and> UserID ?i0 = ir_Sub ir"
    by (rule T[THEN conjunct1, THEN mp, OF a])
  have 2: "\<exists>token ir. EvIntrospect token \<in> set ?c2
             \<and> w_introspect exWorld () token = Inr ir \<and> UserID ?i0 = ir_Sub ir"
    by (rule T[THEN conjunct2, THEN conjunct1, THEN mp, OF b])
  have 3: "\<exists>ir. EvIntrospect (subjectBearer ''a1'') \<in> set ?c3
             \<and> w_introspect exWorld () (subjectBearer ''a1'') = Inr ir \<and> UserID ?i3 = ir_Sub ir"
    by (rule T[THEN conjunct2, THEN conjunct2, THEN mp, OF c])
  have u: "UserID ?i3 = ''u-alice''"
    by (simp add: exAliceIdentity_def)
  have m: "exAliceMap ''sub'' = Some (JString ''someone-else'')"
    by (simp add: exAliceMap_def)
  show ?thesis
    by (intro conjI) (rule ex_login_code 1 ex_refresh 2 ex_exchange 3 u m)+
qed

text \<open>
  C2. When introspection reports the identity type \<^verbatim>\<open>Service\<close>, the \<^verbatim>\<open>Email\<close> of the identity a
  resolution returns is the introspection \<^verbatim>\<open>Sub\<close>, whatever the userinfo claims hold under
  \<^verbatim>\<open>email\<close>: in the concrete run the claims say \<^verbatim>\<open>ops@acme.com\<close> and the identity says
  \<^verbatim>\<open>svc-1234\<close>.
\<close>

theorem service_email_is_subject:
  assumes "createIdentity w c ctx identity0 token r caller = ((identity, None), calls)"
      and "w_introspect w ctx token = Inr ir"
      and "ir_IdentityType ir = ''Service''"
  shows "Email identity = ir_Sub ir"
proof -
  from createIdentity_success[OF assms(1)] assms(2) obtain claims where
    "Email identity = fst (resolveEmail claims ir)"
    by auto
  with assms(3) show ?thesis
    by (simp add: resolveEmail_def case_prod_beta)
qed

theorem service_email_is_subject_witness:
  "createIdentity exWorld exConnector () zeroIdentity (subjectBearer ''a-svc'') None exchangeCaller
     = ((\<lparr>UserID = ''svc-1234'', Username = ''svc'', PreferredUsername = '''',
           Email = ''svc-1234'', EmailVerified = True, Groups = [],
           ConnectorData = exBlob '''' ''a-svc'' '''' ''svc-1234''\<rparr>, None),
        [EvUserInfo (subjectBearer ''a-svc''), EvIntrospect (subjectBearer ''a-svc''),
         EvGetUser ''a-svc'' ''svc-1234'', EvLogError ''404 Not Found''])
   \<and> w_introspect exWorld () (subjectBearer ''a-svc'') = Inr (exIntrospection ''svc-1234'' ''svc'' ''Service'')
   \<and> ir_IdentityType (exIntrospection ''svc-1234'' ''svc'' ''Service'') = ''Service''
   \<and> Email \<lparr>UserID = ''svc-1234'', Username = ''svc'', PreferredUsername = '''',
           Email = ''svc-1234'', EmailVerified = True, Groups = [],
           ConnectorData = exBlob '''' ''a-svc'' '''' ''svc-1234''\<rparr>
       = ir_Sub (exIntrospection ''svc-1234'' ''svc'' ''Service'')
   \<and> exServiceMap ''email'' = Some (JString ''ops@acme.com'')"
proof -
  have i: "w_introspect exWorld () (subjectBearer ''a-svc'')
             = Inr (exIntrospection ''svc-1234'' ''svc'' ''Service'')"
    by (simp add: exWorld_simps ex_introspect)
  have t: "ir_IdentityType (exIntrospection ''svc-1234'' ''svc'' ''Service'') = ''Service''"
    by (simp add: exIntrospection_def)
  have m: "exServiceMap ''email'' = Some (JString ''ops@acme.com'')"
    by (simp add: exServiceMap_def)
  show ?thesis
    by (intro conjI) (rule ex_service i t m service_email_is_subject[OF ex_service i t])+
qed

text \<open>
  C3. When userinfo and introspection have answered, the connector's scopes include
  \<^verbatim>\<open>email\<close>, the claims have no \<^verbatim>\<open>email\<close> entry and the identity type is not \<^verbatim>\<open>Service\<close>, the
  resolution returns the missing-email error. It assembles no identity: what comes
  back is the identity it was given (the zero identity on the callback and
  token-exchange paths), and the calls stop after introspection.
\<close>

theorem missing_email_claim:
  assumes "w_UserInfo w ctx token = Inr ui" and "w_DecodeClaims w ui = Inr claims"
      and "w_introspect w ctx token = Inr ir"
      and "''email'' \<in> set (oc_Scopes (oauth2Config c))"
      and "claims ''email'' = None"
      and "ir_IdentityType ir \<noteq> ''Service''"
  shows "createIdentity w c ctx identity token r caller
           = ((identity, Some ErrMissingEmailClaim), [EvUserInfo token, EvIntrospect token])"
proof -
  have e: "\<not> snd (assertString (claims ''email''))"
    using assms(5) by (simp add: assertString_def)
  have h: "hasEmailScope (oc_Scopes (oauth2Config c))"
    using assms(4) by (simp add: hasEmailScope_iff)
  show ?thesis
    by (rule createIdentity_missing_email[OF assms(1-3) h e assms(6)])
qed

theorem missing_email_claim_witness:
  "w_UserInfo exWorld () (subjectBearer ''a-noemail'') = Inr exClaimsNoEmail
   \<and> w_DecodeClaims exWorld exClaimsNoEmail = Inr exNoEmailMap
   \<and> w_introspect exWorld () (subjectBearer ''a-noemail'') = Inr (exIntrospection ''u-bob'' ''bob'' ''User'')
   \<and> ''email'' \<in> set (oc_Scopes (oauth2Config exConnector))
   \<and> exNoEmailMap ''email'' = None
   \<and> ir_IdentityType (exIntrospection ''u-bob'' ''bob'' ''User'') \<noteq> ''Service''
   \<and> createIdentity exWorld exConnector () zeroIdentity (subjectBearer ''a-noemail'') None exchangeCaller
       = ((zeroIdentity, Some ErrMissingEmailClaim),
          [EvUserInfo (subjectBearer ''a-noemail''), EvIntrospect (subjectBearer ''a-noemail'')])"
proof -
  have 1: "w_UserInfo exWorld () (subjectBearer ''a-noemail'') = Inr exClaimsNoEmail"
    by (simp add: exWorld_simps ex_userinfo)
  have 2: "w_DecodeClaims exWorld exClaimsNoEmail = Inr exNoEmailMap"
    by (simp add: exWorld_simps ex_claims)
  have 3: "w_introspect exWorld () (subjectBearer ''a-noemail'')
             = Inr (exIntrospection ''u-bob'' ''bob'' ''User'')"
    by (simp add: exWorld_simps ex_introspect)
  have 4: "''email'' \<in> set (oc_Scopes (oauth2Config exConnector))"
    by (simp add: exConnector_def)
  have 5: "exNoEmailMap ''email'' = None"
    by (simp add: exNoEmailMap_def)
  have 6: "ir_IdentityType (exIntrospection ''u-bob'' ''bob'' ''User'') \<noteq> ''Service''"
    by (simp add: exIntrospection_def)
  show ?thesis
    by (intro conjI) (rule 1 2 3 4 5 6 missing_email_claim[OF 1 2 3 4 5 6])+
qed

text \<open>
  C4. In SAML mode an error-free \<^verbatim>\<open>HandleCallback\<close> returns an identity whose session blob
  is the serialization of connector data whose \<^verbatim>\<open>Assertion\<close> is the callback's
  \<^verbatim>\<open>assertion\<close> query parameter and whose \<^verbatim>\<open>RefreshToken\<close> is the \<^verbatim>\<open>refresh_token\<close> of the
  token response the exchange decoded. An error-free \<^verbatim>\<open>Refresh\<close> or \<^verbatim>\<open>TokenIdentity\<close> serializes
  connector data with an empty \<^verbatim>\<open>Assertion\<close> (and, for \<^verbatim>\<open>TokenIdentity\<close>, an empty
  \<^verbatim>\<open>RefreshToken\<close>). The concrete run is the scenario of the specification: assertion
  \<^verbatim>\<open>XYZ\<close>, refresh token \<^verbatim>\<open>r1\<close>.
\<close>

theorem saml_session_blob:
  shows "(isSAML c \<and> HandleCallback w c s r = (Return (identity1, None), calls1) \<longrightarrow>
           (\<exists>req resp body tr cd.
              samlTokenRequest w c (Values_Get (URL_Query w (rq_URL r)) ''assertion'') = Return req \<and>
              w_doRequest w (rq_Context r) req = Inr resp \<and> resp_Body resp = Inr body \<and>
              w_DecodeTokenResponse w body = Inr tr \<and>
              w_Marshal w cd = Inr (ConnectorData identity1) \<and>
              cd_Assertion cd = Values_Get (URL_Query w (rq_URL r)) ''assertion'' \<and>
              cd_RefreshToken cd = tr_RefreshToken tr))
       \<and> (Refresh w c ctx s identity0 = ((identity2, None), calls2) \<longrightarrow>
           (\<exists>cd. w_Marshal w cd = Inr (ConnectorData identity2) \<and> cd_Assertion cd = []))
       \<and> (TokenIdentity w c ctx subjectTokenType subjectToken = ((identity3, None), calls3) \<longrightarrow>
           (\<exists>cd. w_Marshal w cd = Inr (ConnectorData identity3) \<and> cd_Assertion cd = []
                  \<and> cd_RefreshToken cd = []))"
proof (intro conjI impI)
  assume h: "isSAML c \<and> HandleCallback w c s r = (Return (identity1, None), calls1)"
  then have saml: "isSAML c" and hc: "HandleCallback w c s r = (Return (identity1, None), calls1)"
    by simp_all
  from HandleCallback_result[OF hc] saml obtain token calls' req resp body tr where
    ci: "createIdentity w c (rq_Context r) zeroIdentity token (Some r) createCaller
           = ((identity1, None), calls')"
    and ex: "samlTokenRequest w c (Values_Get (URL_Query w (rq_URL r)) ''assertion'') = Return req"
            "w_doRequest w (rq_Context r) req = Inr resp" "resp_Body resp = Inr body"
            "w_DecodeTokenResponse w body = Inr tr"
    and rt: "tok_RefreshToken token = tr_RefreshToken tr"
    by auto
  from createIdentity_success[OF ci] obtain cd where
    "w_Marshal w cd = Inr (ConnectorData identity1)"
    "cd_RefreshToken cd = tok_RefreshToken token"
    "cd_Assertion cd = cd_Assertion (initialConnectorData w c (Some r) createCaller)"
    by auto
  with saml ex rt
  show "\<exists>req resp body tr cd.
              samlTokenRequest w c (Values_Get (URL_Query w (rq_URL r)) ''assertion'') = Return req \<and>
              w_doRequest w (rq_Context r) req = Inr resp \<and> resp_Body resp = Inr body \<and>
              w_DecodeTokenResponse w body = Inr tr \<and>
              w_Marshal w cd = Inr (ConnectorData identity1) \<and>
              cd_Assertion cd = Values_Get (URL_Query w (rq_URL r)) ''assertion'' \<and>
              cd_RefreshToken cd = tr_RefreshToken tr"
    by (auto simp: initialConnectorData_assertion)
next
  assume h: "Refresh w c ctx s identity0 = ((identity2, None), calls2)"
  from Refresh_result[OF h] obtain token calls' where
    ci: "createIdentity w c ctx identity0 token None refreshCaller = ((identity2, None), calls')"
    by auto
  from createIdentity_success[OF ci]
  show "\<exists>cd. w_Marshal w cd = Inr (ConnectorData identity2) \<and> cd_Assertion cd = []"
    by (auto simp: initialConnectorData_assertion)
next
  assume h: "TokenIdentity w c ctx subjectTokenType subjectToken = ((identity3, None), calls3)"
  then have ci: "createIdentity w c ctx zeroIdentity (subjectBearer subjectToken) None exchangeCaller
                  = ((identity3, None), calls3)"
    by (simp add: TokenIdentity_def)
  from createIdentity_success[OF ci]
  show "\<exists>cd. w_Marshal w cd = Inr (ConnectorData identity3) \<and> cd_Assertion cd = []
              \<and> cd_RefreshToken cd = []"
    by (auto simp: initialConnectorData_assertion subjectBearer_def)
qed

theorem saml_session_blob_witness:
  "isSAML exSAMLConnector
   \<and> fst (HandleCallback exWorld exSAMLConnector exScopes (exCallback ''assertion=XYZ&state=st-1''))
       = Return (exAliceIdentity (exBlob ''r1'' ''a1'' ''XYZ'' ''u-alice''), None)
   \<and> (\<exists>req resp body tr cd.
         samlTokenRequest exWorld exSAMLConnector
           (Values_Get (URL_Query exWorld (rq_URL (exCallback ''assertion=XYZ&state=st-1''))) ''assertion'')
           = Return req \<and>
         w_doRequest exWorld (rq_Context (exCallback ''assertion=XYZ&state=st-1'')) req = Inr resp \<and>
         resp_Body resp = Inr body \<and>
         w_DecodeTokenResponse exWorld body = Inr tr \<and>
         w_Marshal exWorld cd
           = Inr (ConnectorData (exAliceIdentity (exBlob ''r1'' ''a1'' ''XYZ'' ''u-alice''))) \<and>
         cd_Assertion cd
           = Values_Get (URL_Query exWorld (rq_URL (exCallback ''assertion=XYZ&state=st-1''))) ''assertion'' \<and>
         cd_RefreshToken cd = tr_RefreshToken tr)
   \<and> Values_Get (URL_Query exWorld (rq_URL (exCallback ''assertion=XYZ&state=st-1''))) ''assertion'' = ''XYZ''
   \<and> w_DecodeTokenResponse exWorld exTokenBody
       = Inr \<lparr>tr_Scope = '''', tr_AccessToken = ''a1'', tr_RefreshToken = ''r1'',
              tr_ExpiresIn = 0, tr_TokenType = ''Bearer'', tr_IDToken = ''''\<rparr>
   \<and> exBlob ''r1'' ''a1'' ''XYZ'' ''u-alice'' = ''r1\<newline>a1\<newline>XYZ\<newline>u-alice''
   \<and> fst (Refresh exWorld exSAMLConnector () exScopes
             (exAliceIdentity (exBlob ''r1'' ''a1'' ''XYZ'' ''u-alice'')))
       = (exAliceIdentity (exBlob ''r1'' ''a1'' '''' ''u-alice''), None)
   \<and> (\<exists>cd. w_Marshal exWorld cd
               = Inr (ConnectorData (exAliceIdentity (exBlob ''r1'' ''a1'' '''' ''u-alice'')))
             \<and> cd_Assertion cd = [])
   \<and> fst (TokenIdentity exWorld exSAMLConnector () ''urn:ietf:params:oauth:token-type:access_token'' ''a1'')
       = (exAliceIdentity (exBlob '''' ''a1'' '''' ''u-alice''), None)
   \<and> (\<exists>cd. w_Marshal exWorld cd
               = Inr (ConnectorData (exAliceIdentity (exBlob '''' ''a1'' '''' ''u-alice'')))
             \<and> cd_Assertion cd = [] \<and> cd_RefreshToken cd = [])"
proof -
  let ?r = "exCallback ''assertion=XYZ&state=st-1''"
  let ?i1 = "exAliceIdentity (exBlob ''r1'' ''a1'' ''XYZ'' ''u-alice'')"
  let ?i2 = "exAliceIdentity (exBlob ''r1'' ''a1'' '''' ''u-alice'')"
  let ?i3 = "exAliceIdentity (exBlob '''' ''a1'' '''' ''u-alice'')"
  let ?tt = "''urn:ietf:params:oauth:token-type:access_token''"
  let ?c1 = "snd (HandleCallback exWorld exSAMLConnector exScopes ?r)"
  let ?c2 = "snd (Refresh exWorld exSAMLConnector () exScopes ?i1)"
  let ?c3 = "snd (TokenIdentity exWorld exSAMLConnector () ?tt ''a1'')"
  have r2: "fst (Refresh exWorld exSAMLConnector () exScopes ?i1) = (?i2, None)"
    by code_simp
  have r3: "fst (TokenIdentity exWorld exSAMLConnector () ?tt ''a1'') = (?i3, None)"
    by code_simp
  have a: "isSAML exSAMLConnector
           \<and> HandleCallback exWorld exSAMLConnector exScopes ?r = (Return (?i1, None), ?c1)"
    using ex_login_saml ex_saml_facts(1) by (simp add: prod_eq_iff)
  have b: "Refresh exWorld exSAMLConnector () exScopes ?i1 = ((?i2, None), ?c2)"
    using r2 by (simp add: prod_eq_iff)
  have c: "TokenIdentity exWorld exSAMLConnector () ?tt ''a1'' = ((?i3, None), ?c3)"
    using r3 by (simp add: prod_eq_iff)
  note T = saml_session_blob
             [where w = exWorld and c = exSAMLConnector and s = exScopes and r = ?r
                and ?identity1.0 = ?i1 and ?calls1.0 = ?c1
                and ctx = "()" and ?identity0.0 = ?i1 and ?identity2.0 = ?i2 and ?calls2.0 = ?c2
                and subjectTokenType = ?tt and subjectToken = "''a1''"
                and ?identity3.0 = ?i3 and ?calls3.0 = ?c3]
  note 1 = T[THEN conjunct1, THEN mp, OF a]
  note 2 = T[THEN conjunct2, THEN conjunct1, THEN mp, OF b]
  note 3 = T[THEN conjunct2, THEN conjunct2, THEN mp, OF c]
  show ?thesis
    by (intro conjI) (rule ex_saml_facts ex_login_saml 1 2 3 r2 r3)+
qed

text \<open>
  C5. A callback whose \<^verbatim>\<open>error\<close> query parameter (as \<^verbatim>\<open>q.Get("error")\<close> reads it) is not
  empty makes \<^verbatim>\<open>HandleCallback\<close> return the \<^verbatim>\<open>oauth2Error\<close> built from it and from
  \<^verbatim>\<open>error_description\<close>, with the zero identity and an empty trace: neither the SAML
  exchange nor the code exchange nor any other collaborator is called, in either mode.
\<close>

theorem upstream_error_stops_callback:
  assumes "Values_Get (URL_Query w (rq_URL r)) ''error'' \<noteq> ''''"
  shows "HandleCallback w c s r
           = (Return (zeroIdentity,
                      Some (OAuth2Error (Values_Get (URL_Query w (rq_URL r)) ''error'')
                                        (Values_Get (URL_Query w (rq_URL r)) ''error_description''))),
              [])"
  using assms unfolding HandleCallback_def Let_def by simp

theorem upstream_error_stops_callback_witness:
  "Values_Get (URL_Query exWorld (rq_URL (exCallback ''error=access_denied&error_description=no'')))
     ''error'' \<noteq> ''''
   \<and> HandleCallback exWorld exSAMLConnector exScopes (exCallback ''error=access_denied&error_description=no'')
       = (Return (zeroIdentity, Some (OAuth2Error ''access_denied'' ''no'')), [])
   \<and> HandleCallback exWorld exConnector exScopes (exCallback ''error=access_denied&error_description=no'')
       = (Return (zeroIdentity, Some (OAuth2Error ''access_denied'' ''no'')), [])
   \<and> oauth2Error_Error ''access_denied'' ''no'' = ''access_denied: no''"
proof -
  let ?r = "exCallback ''error=access_denied&error_description=no''"
  have h: "Values_Get (URL_Query exWorld (rq_URL ?r)) ''error'' \<noteq> ''''"
    by (simp add: ex_denied)
  have m: "oauth2Error_Error ''access_denied'' ''no'' = ''access_denied: no''"
    by (simp add: oauth2Error_Error_def)
  from upstream_error_stops_callback[OF h, of exSAMLConnector exScopes]
       upstream_error_stops_callback[OF h, of exConnector exScopes] h m
  show ?thesis
    by (simp add: ex_denied)
qed

text \<open>
  C6, as the code has it. With a non-empty hosted-domain list, and \<open>hostedDomain\<close> the
  \<^verbatim>\<open>hd\<close> claim as the resolver reads it (the claim when it is a string, the empty
  string when the claim is absent or not a string): a
  resolution succeeds only if \<open>hostedDomain\<close> is an entry of the list; when it is no
  entry the resolution fails, and with the unexpected-hd error once introspection has
  answered and the email check has passed (an earlier failure is reported instead);
  when it is an entry the unexpected-hd error is never returned. With the list
  \<^verbatim>\<open>["acme.com"]\<close>, \<^verbatim>\<open>hd = acme.com\<close> passes and \<^verbatim>\<open>hd = other.com\<close> fails.
\<close>

theorem hosted_domain_check:
  assumes "hostedDomains c \<noteq> []"
      and "w_UserInfo w ctx token = Inr ui" and "w_DecodeClaims w ui = Inr claims"
  shows "(createIdentity w c ctx identity token r caller = ((identity', None), calls) \<longrightarrow>
           fst (assertString (claims ''hd'')) \<in> set (hostedDomains c))
       \<and> (fst (assertString (claims ''hd'')) \<notin> set (hostedDomains c) \<longrightarrow>
           snd (fst (createIdentity w c ctx identity token r caller)) \<noteq> None)
       \<and> (fst (assertString (claims ''hd'')) \<notin> set (hostedDomains c)
           \<and> w_introspect w ctx token = Inr ir
           \<and> (ir_IdentityType ir = ''Service'' \<or> snd (assertString (claims ''email''))
                \<or> ''email'' \<notin> set (oc_Scopes (oauth2Config c))) \<longrightarrow>
           createIdentity w c ctx identity token r caller
             = ((identity, Some (ErrUnexpectedHdClaim (fst (assertString (claims ''hd''))))),
                [EvUserInfo token, EvIntrospect token]))
       \<and> (fst (assertString (claims ''hd'')) \<in> set (hostedDomains c) \<longrightarrow>
           snd (fst (createIdentity w c ctx identity token r caller))
             \<noteq> Some (ErrUnexpectedHdClaim d))"
proof -
  have a: "fst (assertString (claims ''hd'')) \<in> set (hostedDomains c)"
    if "createIdentity w c ctx identity token r caller = ((identity', None), calls)"
    for identity' calls
    using createIdentity_success[OF that] assms by (auto simp: domainFound_iff)
  have b: "snd (fst (createIdentity w c ctx identity token r caller)) \<noteq> None"
    if "fst (assertString (claims ''hd'')) \<notin> set (hostedDomains c)"
  proof
    assume n: "snd (fst (createIdentity w c ctx identity token r caller)) = None"
    have "createIdentity w c ctx identity token r caller
            = ((fst (fst (createIdentity w c ctx identity token r caller)), None),
               snd (createIdentity w c ctx identity token r caller))"
      using n by (simp add: prod_eq_iff)
    from a[OF this] that show False by simp
  qed
  have c: "createIdentity w c ctx identity token r caller
             = ((identity, Some (ErrUnexpectedHdClaim (fst (assertString (claims ''hd''))))),
                [EvUserInfo token, EvIntrospect token])"
    if "fst (assertString (claims ''hd'')) \<notin> set (hostedDomains c)
           \<and> w_introspect w ctx token = Inr ir
           \<and> (ir_IdentityType ir = ''Service'' \<or> snd (assertString (claims ''email''))
                \<or> ''email'' \<notin> set (oc_Scopes (oauth2Config c)))"
    using that assms unfolding createIdentity_def resolveEmail_def Let_def case_prod_beta
    by (auto simp: domainFound_iff hasEmailScope_iff)
  have d: "snd (fst (createIdentity w c ctx identity token r caller))
             \<noteq> Some (ErrUnexpectedHdClaim d)"
    if "fst (assertString (claims ''hd'')) \<in> set (hostedDomains c)"
  proof
    assume e: "snd (fst (createIdentity w c ctx identity token r caller))
                 = Some (ErrUnexpectedHdClaim d)"
    have "createIdentity w c ctx identity token r caller
            = ((fst (fst (createIdentity w c ctx identity token r caller)),
                Some (ErrUnexpectedHdClaim d)),
               snd (createIdentity w c ctx identity token r caller))"
      using e by (simp add: prod_eq_iff)
    from createIdentity_hd_error[OF this] assms that show False
      by (auto simp: domainFound_iff)
  qed
  from a b c d show ?thesis by blast
qed

theorem hosted_domain_check_witness:
  "hostedDomains exConnector = [''acme.com'']
   \<and> w_UserInfo exWorld () (subjectBearer ''a1'') = Inr exClaimsAlice
   \<and> w_DecodeClaims exWorld exClaimsAlice = Inr exAliceMap
   \<and> fst (assertString (exAliceMap ''hd'')) = ''acme.com''
   \<and> createIdentity exWorld exConnector () zeroIdentity (subjectBearer ''a1'') None exchangeCaller
       = ((exAliceIdentity (exBlob '''' ''a1'' '''' ''u-alice''), None),
          [EvUserInfo (subjectBearer ''a1''), EvIntrospect (subjectBearer ''a1''),
           EvGetUser ''a1'' ''u-alice''])
   \<and> fst (assertString (exAliceMap ''hd'')) \<in> set (hostedDomains exConnector)
   \<and> w_UserInfo exWorld () (subjectBearer ''a-other'') = Inr exClaimsOther
   \<and> w_DecodeClaims exWorld exClaimsOther = Inr exOtherMap
   \<and> w_introspect exWorld () (subjectBearer ''a-other'') = Inr (exIntrospection ''u-dave'' ''dave'' ''User'')
   \<and> fst (assertString (exOtherMap ''hd'')) = ''other.com''
   \<and> fst (assertString (exOtherMap ''hd'')) \<notin> set (hostedDomains exConnector)
   \<and> snd (assertString (exOtherMap ''email''))
   \<and> createIdentity exWorld exConnector () zeroIdentity (subjectBearer ''a-other'') None exchangeCaller
       = ((zeroIdentity, Some (ErrUnexpectedHdClaim (fst (assertString (exOtherMap ''hd''))))),
          [EvUserInfo (subjectBearer ''a-other''), EvIntrospect (subjectBearer ''a-other'')])"
proof -
  have n: "hostedDomains exConnector \<noteq> []"
    by (simp add: ex_hd)
  have u1: "w_UserInfo exWorld () (subjectBearer ''a1'') = Inr exClaimsAlice"
    by (simp add: exWorld_simps ex_userinfo)
  have d1: "w_DecodeClaims exWorld exClaimsAlice = Inr exAliceMap"
    by (simp add: exWorld_simps ex_claims)
  have u2: "w_UserInfo exWorld () (subjectBearer ''a-other'') = Inr exClaimsOther"
    by (simp add: exWorld_simps ex_userinfo)
  have d2: "w_DecodeClaims exWorld exClaimsOther = Inr exOtherMap"
    by (simp add: exWorld_simps ex_claims)
  have i2: "w_introspect exWorld () (subjectBearer ''a-other'')
              = Inr (exIntrospection ''u-dave'' ''dave'' ''User'')"
    by (simp add: exWorld_simps ex_introspect)
  have out: "fst (assertString (exOtherMap ''hd'')) \<notin> set (hostedDomains exConnector)"
    by (simp add: ex_hd)
  have pre: "fst (assertString (exOtherMap ''hd'')) \<notin> set (hostedDomains exConnector)
             \<and> w_introspect exWorld () (subjectBearer ''a-other'')
                 = Inr (exIntrospection ''u-dave'' ''dave'' ''User'')
             \<and> (ir_IdentityType (exIntrospection ''u-dave'' ''dave'' ''User'') = ''Service''
                  \<or> snd (assertString (exOtherMap ''email''))
                  \<or> ''email'' \<notin> set (oc_Scopes (oauth2Config exConnector)))"
    using out i2 ex_hd(4) by simp
  note A = hosted_domain_check[OF n u1 d1, where identity = zeroIdentity and r = None
             and caller = exchangeCaller
             and identity' = "exAliceIdentity (exBlob '''' ''a1'' '''' ''u-alice'')"
             and calls = "[EvUserInfo (subjectBearer ''a1''), EvIntrospect (subjectBearer ''a1''),
                           EvGetUser ''a1'' ''u-alice'']"]
  note B = hosted_domain_check[OF n u2 d2, where identity = zeroIdentity and r = None
             and caller = exchangeCaller and ir = "exIntrospection ''u-dave'' ''dave'' ''User''"]
  note 1 = A[THEN conjunct1, THEN mp, OF ex_acme]
  note 2 = B[THEN conjunct2, THEN conjunct2, THEN conjunct1, THEN mp, OF pre]
  show ?thesis
    by (intro conjI) (rule ex_hd u1 d1 ex_acme 1 u2 d2 i2 out 2)+
qed

text \<open>
  The claim as the specification states it fails twice. With the list \<^verbatim>\<open>[""]\<close> and
  userinfo claims that have no \<^verbatim>\<open>hd\<close> entry the resolution succeeds, although no \<^verbatim>\<open>hd\<close>
  claim equals an entry of the list. With the list \<^verbatim>\<open>["example.org"]\<close>, \<^verbatim>\<open>hd = acme.com\<close>
  and no \<^verbatim>\<open>email\<close> claim the resolution fails with the missing-email error, not with
  the unexpected-hd error: the email check comes first.
\<close>

theorem hosted_domain_counterexample:
  "hostedDomains exEmptyDomainConnector = ['''']
   \<and> hostedDomains exEmptyDomainConnector \<noteq> []
   \<and> w_UserInfo exWorld () (subjectBearer ''a-nohd'') = Inr exClaimsNoHd
   \<and> w_DecodeClaims exWorld exClaimsNoHd = Inr exNoHdMap
   \<and> exNoHdMap ''hd'' = None
   \<and> createIdentity exWorld exEmptyDomainConnector () zeroIdentity (subjectBearer ''a-nohd'') None
         exchangeCaller
       = ((\<lparr>UserID = ''u-erin'', Username = ''erin'', PreferredUsername = '''',
             Email = ''erin@acme.com'', EmailVerified = True, Groups = [],
             ConnectorData = exBlob '''' ''a-nohd'' '''' ''u-erin''\<rparr>, None),
          [EvUserInfo (subjectBearer ''a-nohd''), EvIntrospect (subjectBearer ''a-nohd''),
           EvGetUser ''a-nohd'' ''u-erin'', EvLogError ''404 Not Found''])
   \<and> hostedDomains exOrgDomainConnector = [''example.org'']
   \<and> w_UserInfo exWorld () (subjectBearer ''a-noemail'') = Inr exClaimsNoEmail
   \<and> w_DecodeClaims exWorld exClaimsNoEmail = Inr exNoEmailMap
   \<and> exNoEmailMap ''hd'' = Some (JString ''acme.com'')
   \<and> createIdentity exWorld exOrgDomainConnector () zeroIdentity (subjectBearer ''a-noemail'') None
         exchangeCaller
       = ((zeroIdentity, Some ErrMissingEmailClaim),
          [EvUserInfo (subjectBearer ''a-noemail''), EvIntrospect (subjectBearer ''a-noemail'')])"
proof -
  have 1: "hostedDomains exEmptyDomainConnector = ['''']"
    by (simp add: exEmptyDomainConnector_def)
  have 2: "hostedDomains exEmptyDomainConnector \<noteq> []"
    by (simp add: 1)
  have 3: "w_UserInfo exWorld () (subjectBearer ''a-nohd'') = Inr exClaimsNoHd"
    by (simp add: exWorld_simps ex_userinfo)
  have 4: "w_DecodeClaims exWorld exClaimsNoHd = Inr exNoHdMap"
    by (simp add: exWorld_simps ex_claims)
  have 5: "exNoHdMap ''hd'' = None"
    by (simp add: exNoHdMap_def)
  have 6: "hostedDomains exOrgDomainConnector = [''example.org'']"
    by (simp add: exOrgDomainConnector_def)
  have 7: "w_UserInfo exWorld () (subjectBearer ''a-noemail'') = Inr exClaimsNoEmail"
    by (simp add: exWorld_simps ex_userinfo)
  have 8: "w_DecodeClaims exWorld exClaimsNoEmail = Inr exNoEmailMap"
    by (simp add: exWorld_simps ex_claims)
  have 9: "exNoEmailMap ''hd'' = Some (JString ''acme.com'')"
    by (simp add: exNoEmailMap_def)
  show ?thesis
    by (intro conjI) (rule 1 2 3 4 5 6 7 8 9 ex_no_hd ex_org_domain)+
qed

text \<open>
  C7, as the code has it. An error of \<^verbatim>\<open>LoginURL\<close> comes with the empty URL. An error of
  \<^verbatim>\<open>HandleCallback\<close> or \<^verbatim>\<open>TokenIdentity\<close> comes with the zero identity, and an error of
  \<^verbatim>\<open>Refresh\<close> with the identity the caller passed in, unchanged; the one error left aside
  is the failure to encode the connector data, which is raised after the identity has
  been assembled. The identity next to an error is therefore not always the zero
  identity: \<^verbatim>\<open>Refresh\<close> on an identity whose session blob is empty, or holds no refresh
  token, hands that identity back with the error.
\<close>

theorem error_keeps_given_identity:
  shows "(LoginURL w c s callbackURL state = Return (url, Some e0) \<longrightarrow> url = '''')
       \<and> (HandleCallback w c s r = (Return (identity1, Some e1), calls1) \<longrightarrow>
            identity1 = zeroIdentity \<or> (\<exists>m. e1 = ErrEncodeConnectorData m))
       \<and> (Refresh w c ctx s identity0 = ((identity2, Some e2), calls2) \<longrightarrow>
            identity2 = identity0 \<or> (\<exists>m. e2 = ErrEncodeConnectorData m))
       \<and> (TokenIdentity w c ctx subjectTokenType subjectToken = ((identity3, Some e3), calls3) \<longrightarrow>
            identity3 = zeroIdentity \<or> (\<exists>m. e3 = ErrEncodeConnectorData m))"
proof (intro conjI impI)
  assume "LoginURL w c s callbackURL state = Return (url, Some e0)"
  then show "url = ''''" by (rule LoginURL_error)
next
  assume "HandleCallback w c s r = (Return (identity1, Some e1), calls1)"
  then show "identity1 = zeroIdentity \<or> (\<exists>m. e1 = ErrEncodeConnectorData m)"
    by (rule HandleCallback_error)
next
  assume "Refresh w c ctx s identity0 = ((identity2, Some e2), calls2)"
  then show "identity2 = identity0 \<or> (\<exists>m. e2 = ErrEncodeConnectorData m)"
    by (rule Refresh_error)
next
  assume "TokenIdentity w c ctx subjectTokenType subjectToken = ((identity3, Some e3), calls3)"
  then have "createIdentity w c ctx zeroIdentity (subjectBearer subjectToken) None exchangeCaller
               = ((identity3, Some e3), calls3)"
    by (simp add: TokenIdentity_def)
  then show "identity3 = zeroIdentity \<or> (\<exists>m. e3 = ErrEncodeConnectorData m)"
    by (rule createIdentity_error)
qed

theorem error_keeps_given_identity_witness:
  "LoginURL exWorld exConnector exScopes ''https://evil.example.com/callback'' ''st-1''
     = Return ('''', Some (ErrCallbackMismatch ''https://evil.example.com/callback''
                            ''https://dex.example.com/callback''))
   \<and> HandleCallback exWorld exConnector exScopes (exCallback ''code=stale&state=st-1'')
     = (Return (zeroIdentity, Some (ErrGetToken ''invalid_grant'')), [EvExchange ''stale''])
   \<and> (zeroIdentity = zeroIdentity \<or> (\<exists>m. ErrGetToken ''invalid_grant'' = ErrEncodeConnectorData m))
   \<and> Refresh exWorld exConnector () exScopes (exAliceIdentity '''')
     = ((exAliceIdentity '''', Some (ErrUnmarshalConnectorData ''unexpected end of JSON input'')), [])
   \<and> (exAliceIdentity '''' = exAliceIdentity ''''
        \<or> (\<exists>m. ErrUnmarshalConnectorData ''unexpected end of JSON input'' = ErrEncodeConnectorData m))
   \<and> TokenIdentity exWorld exConnector () ''urn:ietf:params:oauth:token-type:access_token'' ''a-noemail''
     = ((zeroIdentity, Some ErrMissingEmailClaim),
        [EvUserInfo (subjectBearer ''a-noemail''), EvIntrospect (subjectBearer ''a-noemail'')])
   \<and> (zeroIdentity = zeroIdentity \<or> (\<exists>m. ErrMissingEmailClaim = ErrEncodeConnectorData m))"
proof -
  note T = error_keeps_given_identity
             [where w = exWorld and c = exConnector and s = exScopes and ctx = "()"
                and callbackURL = "''https://evil.example.com/callback''" and state = "''st-1''"
                and r = "exCallback ''code=stale&state=st-1''"
                and ?identity0.0 = "exAliceIdentity ''''"
                and subjectTokenType = "''urn:ietf:params:oauth:token-type:access_token''"
                and subjectToken = "''a-noemail''"]
  note 2 = T[THEN conjunct2, THEN conjunct1, THEN mp, OF ex_errors(2)]
  note 3 = T[THEN conjunct2, THEN conjunct2, THEN conjunct1, THEN mp, OF ex_errors(3)]
  note 4 = T[THEN conjunct2, THEN conjunct2, THEN conjunct2, THEN mp, OF ex_errors(4)]
  show ?thesis
    by (intro conjI) (rule ex_errors 2 3 4)+
qed

text \<open>
  The claim as the specification states it fails for \<^verbatim>\<open>Refresh\<close>: an identity with an
  empty session blob, and one whose blob holds no refresh token, each come back next
  to the error, and neither is the zero identity.
\<close>

theorem error_with_identity_counterexample:
  "Refresh exWorld exConnector () exScopes (exAliceIdentity '''')
     = ((exAliceIdentity '''', Some (ErrUnmarshalConnectorData ''unexpected end of JSON input'')), [])
   \<and> UserID (exAliceIdentity '''') = ''u-alice''
   \<and> exAliceIdentity '''' \<noteq> zeroIdentity
   \<and> Refresh exWorld exConnector () exScopes (exAliceIdentity (exBlob '''' ''a1'' '''' ''u-alice''))
     = ((exAliceIdentity (exBlob '''' ''a1'' '''' ''u-alice''),
         Some (ErrGetRefreshToken ''oauth2: token expired and refresh token is not set'')),
        [EvTokenSource \<lparr>tok_AccessToken = '''', tok_TokenType = '''', tok_RefreshToken = '''',
                        tok_Expiry = Some (1700000000 - 3600)\<rparr>])
   \<and> exAliceIdentity (exBlob '''' ''a1'' '''' ''u-alice'') \<noteq> zeroIdentity"
  by code_simp

text \<open>
  C8, as the code has it. In SAML mode, with the callback URL equal to the configured
  redirect URI and parsing as a URL: if the configured SAML login URL parses,
  \<^verbatim>\<open>LoginURL\<close> returns that URL with only its query replaced, the query being the login
  URL's own values with \<^verbatim>\<open>redirect_uri\<close> set to the callback URL, and the callback URL's
  query being its own values with \<^verbatim>\<open>state\<close> set to the state value (the state is a
  parameter of the callback URL, which is a parameter of the login URL); if the SAML
  login URL does not parse, \<^verbatim>\<open>LoginURL\<close> returns the empty string and the
  invalid-login-URL error. So SAML mode and a matching callback URL alone do not
  yield a login URL: with the login URL \<^verbatim>\<open>:saml\<close> the result is an error.
\<close>

theorem saml_login_url:
  assumes "isSAML c" and "redirectURI c = callbackURL" and "w_Parse w callbackURL = Inr cbu"
  shows "(w_Parse w (samlLoginURL c) = Inr u \<longrightarrow>
           LoginURL w c s callbackURL state
             = Return (w_String w
                 (u\<lparr>u_RawQuery := w_Encode w
                      ((URL_Query w u)(''redirect_uri'' \<mapsto>
                         [w_String w
                            (cbu\<lparr>u_RawQuery := w_Encode w
                                   ((URL_Query w cbu)(''state'' \<mapsto> [state]))\<rparr>)]))\<rparr>),
                 None))
       \<and> (w_Parse w (samlLoginURL c) = Inl err \<longrightarrow>
           LoginURL w c s callbackURL state = Return ('''', Some (ErrInvalidSAMLLoginURL err)))"
  using assms unfolding LoginURL_def Let_def Values_Set_def
  by simp

theorem saml_login_url_witness:
  "isSAML exSAMLConnector
   \<and> redirectURI exSAMLConnector = ''https://dex.example.com/callback''
   \<and> w_Parse exWorld ''https://dex.example.com/callback''
       = Inr (zeroURL\<lparr>u_Scheme := ''https'', u_Host := ''dex.example.com'', u_Path := ''/callback''\<rparr>)
   \<and> w_Parse exWorld (samlLoginURL exSAMLConnector)
       = Inr (zeroURL\<lparr>u_Scheme := ''https'', u_Host := ''idp.example.com'', u_Path := ''/saml/login''\<rparr>)
   \<and> LoginURL exWorld exSAMLConnector exScopes ''https://dex.example.com/callback'' ''st-1''
       = Return (w_String exWorld
           ((zeroURL\<lparr>u_Scheme := ''https'', u_Host := ''idp.example.com'', u_Path := ''/saml/login''\<rparr>)
              \<lparr>u_RawQuery := w_Encode exWorld
                 ((URL_Query exWorld
                     (zeroURL\<lparr>u_Scheme := ''https'', u_Host := ''idp.example.com'',
                               u_Path := ''/saml/login''\<rparr>))
                  (''redirect_uri'' \<mapsto>
                     [w_String exWorld
                        ((zeroURL\<lparr>u_Scheme := ''https'', u_Host := ''dex.example.com'',
                                   u_Path := ''/callback''\<rparr>)
                           \<lparr>u_RawQuery := w_Encode exWorld
                              ((URL_Query exWorld
                                  (zeroURL\<lparr>u_Scheme := ''https'', u_Host := ''dex.example.com'',
                                            u_Path := ''/callback''\<rparr>))
                               (''state'' \<mapsto> [''st-1'']))\<rparr>)]))\<rparr>),
           None)
   \<and> LoginURL exWorld exSAMLConnector exScopes ''https://dex.example.com/callback'' ''st-1''
       = Return (''https://idp.example.com/saml/login?redirect_uri=https%3A%2F%2Fdex.example.com%2Fcallback%3Fstate%3Dst-1'',
                 None)"
proof -
  note T = saml_login_url[OF ex_saml_login(1) ex_saml_login(2) ex_saml_login(3),
             where s = exScopes and state = "''st-1''"]
  note 1 = T[THEN conjunct1, THEN mp, OF ex_saml_login(4)]
  show ?thesis
    by (intro conjI) (rule ex_saml_login 1)+
qed

text \<open>
  The claim as the specification states it fails for a connector in SAML mode whose
  login URL is \<^verbatim>\<open>:saml\<close>: the callback URL matches, and the result is an error.
\<close>

theorem saml_login_url_counterexample:
  \<open>isSAML exBadSAMLConnector
   \<and> redirectURI exBadSAMLConnector = ''https://dex.example.com/callback''
   \<and> samlLoginURL exBadSAMLConnector = '':saml''
   \<and> LoginURL exWorld exBadSAMLConnector exScopes ''https://dex.example.com/callback'' ''st-1''
       = Return ('''', Some (ErrInvalidSAMLLoginURL ''parse ":saml": missing protocol scheme''))\<close>
  by code_simp

text \<open>
  C9. \<^verbatim>\<open>TokenIdentity\<close> does not look at its \<^verbatim>\<open>subjectTokenType\<close>: two calls that differ only
  in it return the same identity, the same error and make the same calls.
\<close>

theorem subject_token_type_is_ignored:
  "TokenIdentity w c ctx subjectTokenType1 subjectToken
     = TokenIdentity w c ctx subjectTokenType2 subjectToken"
  by (simp add: TokenIdentity_def)




text \<open>
  X1. What the amended C8 leaves aside: in SAML mode, with the callback URL equal to
  the configured redirect URI but not parsing as a URL, \<^verbatim>\<open>LoginURL\<close> panics. The parse
  error is dropped (\<^verbatim>\<open>cbu, _ := url.Parse(callbackURL)\<close>) and the nil URL is dereferenced by
  \<^verbatim>\<open>cbu.Query()\<close>, before the SAML login URL is looked at.
\<close>

theorem saml_login_url_panics:
  assumes "isSAML c" and "redirectURI c = callbackURL" and "w_Parse w callbackURL = Inl err"
  shows "LoginURL w c s callbackURL state = Panic"
  using assms unfolding LoginURL_def by simp

theorem saml_login_url_panics_witness:
  \<open>isSAML exBadRedirectConnector
   \<and> redirectURI exBadRedirectConnector = '':callback''
   \<and> w_Parse exWorld '':callback'' = Inl ''parse ":callback": missing protocol scheme''
   \<and> LoginURL exWorld exBadRedirectConnector exScopes '':callback'' ''st-1'' = Panic\<close>
proof -
  have 1: "isSAML exBadRedirectConnector"
    by code_simp
  have 2: "redirectURI exBadRedirectConnector = '':callback''"
    by code_simp
  have 3: \<open>w_Parse exWorld '':callback'' = Inl ''parse ":callback": missing protocol scheme''\<close>
    by code_simp
  show ?thesis
    by (intro conjI) (rule 1 2 3 saml_login_url_panics[OF 1 2 3])+
qed

end
